theory Spec2Isabelle
  imports Complex_Main "HOL-Library.Word"
begin

section \<open>Rhodium radio control: initialisation (rhodium\_radio\_ctrl\_init.cpp)\<close>

text \<open>
  The file under verification initialises the Rhodium daughterboard controller: it writes
  defaults (\<open>_init_defaults\<close>), brings the peripherals up (\<open>_init_peripherals\<close>), and
  wires the property tree (\<open>_init_frontend_subtree\<close>, \<open>_init_prop_tree\<close>,
  \<open>_init_mpm_sensors\<close>). The model keeps the controller state explicit, turns every
  exception into an error value, and records every call that leaves the file in a log.
\<close>

subsection \<open>Values\<close>

datatype direction_t = RX_DIRECTION | TX_DIRECTION

datatype slave_select_t = SEN_CPLD | SEN_TX_LO | SEN_RX_LO | SEN_LO_DIST

fun slave_select_value :: "slave_select_t \<Rightarrow> nat" where
  "slave_select_value SEN_CPLD = 8"
| "slave_select_value SEN_TX_LO = 1"
| "slave_select_value SEN_RX_LO = 2"
| "slave_select_value SEN_LO_DIST = 4"

datatype edge_t = EDGE_RISE | EDGE_FALL

record spi_config_t =
  use_custom_divider :: bool
  divider :: nat
  mosi_edge :: edge_t
  miso_edge :: edge_t

definition get_cpld_spi_config :: spi_config_t where
  "get_cpld_spi_config =
     \<lparr>use_custom_divider = True, divider = 10, mosi_edge = EDGE_RISE, miso_edge = EDGE_FALL\<rparr>"

definition get_tx_lo_spi_config :: spi_config_t where
  "get_tx_lo_spi_config =
     \<lparr>use_custom_divider = True, divider = 10, mosi_edge = EDGE_RISE, miso_edge = EDGE_FALL\<rparr>"

definition get_rx_lo_spi_config :: spi_config_t where
  "get_rx_lo_spi_config =
     \<lparr>use_custom_divider = True, divider = 10, mosi_edge = EDGE_RISE, miso_edge = EDGE_FALL\<rparr>"

text \<open>
  The values that travel through the property tree and through calls: the \<open>T\<close> of every
  \<open>property<T>\<close> the file creates, and the arguments of the calls it makes.
  \<open>size_t\<close> is a 64-bit word and \<open>int\<close> a 32-bit word; \<open>double\<close> is a real
  (every double constant of the file is an integer). A channel index is a \<open>size_t\<close>
  that only counts, so it is a natural number. \<open>Write_spi\<close> and \<open>Read_spi\<close> are the
  closures built by \<open>_generate_write_spi\<close> and \<open>_generate_read_spi\<close>: each performs
  one 24-bit exchange on the chip select and bus configuration it captured. \<open>Named\<close>
  stands for a constant or an object that is declared outside the file.
\<close>

datatype pval =
    VStr string
  | VStrs "string list"
  | VDouble real
  | VBool bool
  | VInt "32 word"
  | VSize "64 word"
  | Index nat
  | Dir direction_t
  | Meta_range real real real
  | Sensor_bool string bool string string
  | Sensor_map "(string \<times> string) list"
  | Device_addr
  | Eeprom_map
  | Write_spi slave_select_t spi_config_t
  | Read_spi slave_select_t spi_config_t
  | Path "string list"
  | Named string

definition generate_write_spi :: "slave_select_t \<Rightarrow> spi_config_t \<Rightarrow> pval" where
  "generate_write_spi slave config = Write_spi slave config"

definition generate_read_spi :: "slave_select_t \<Rightarrow> spi_config_t \<Rightarrow> pval" where
  "generate_read_spi slave config = Read_spi slave config"

subsection \<open>Paths\<close>

text \<open>
  Modelled from the spec: \<open>fs_path\<close> and its \<open>/\<close> operator are declared outside the
  file. A path is the ordered sequence of its segments; a string is cut at every
  \<open>/\<close> (empty segments are dropped), and a \<open>size_t\<close> is written in decimal.
\<close>

type_synonym fs_path = "string list"

fun split_segments :: "string \<Rightarrow> string \<Rightarrow> string list" where
  "split_segments acc [] = (if acc = [] then [] else [acc])"
| "split_segments acc (c # cs) =
     (if c = CHR ''/'' then (if acc = [] then [] else [acc]) @ split_segments [] cs
      else split_segments (acc @ [c]) cs)"

definition segments :: "string \<Rightarrow> fs_path" where
  "segments str = split_segments [] str"

definition digit_char :: "nat \<Rightarrow> char" where
  "digit_char d = char_of (48 + d)"

fun to_string :: "nat \<Rightarrow> string" where
  "to_string n = (if n < 10 then [digit_char n] else to_string (n div 10) @ [digit_char (n mod 10)])"

declare to_string.simps [simp del]

definition slash :: "fs_path \<Rightarrow> string \<Rightarrow> fs_path" where
  "slash p str = p @ segments str"

definition slash_idx :: "fs_path \<Rightarrow> nat \<Rightarrow> fs_path" where
  "slash_idx p n = slash p (to_string n)"

text \<open>\<open>p / a / b / c\<close>\<close>

definition slashes :: "fs_path \<Rightarrow> string list \<Rightarrow> fs_path" where
  "slashes p strs = foldl slash p strs"

subsection \<open>Errors, calls and the controller state\<close>

text \<open>
  \<open>runtime_error\<close> is \<open>uhd::runtime_error\<close>, the only exception the file throws itself.
  \<open>NoSuchPathError\<close> is the engine's failure on an unregistered path, \<open>type_error\<close>
  a value of the wrong type for the node or closure that receives it,
  \<open>uninitialized_error\<close> a read of a node that has neither a value nor a publisher, and
  \<open>external_error\<close> any failure raised by code outside the file (a bus transaction, a
  remote call).
\<close>

datatype error =
    runtime_error string
  | NoSuchPathError fs_path
  | type_error
  | uninitialized_error fs_path
  | external_error string

text \<open>A call that leaves the file: the callee's name and its arguments.\<close>

datatype call = Call string "pval list"

fun call_name :: "call \<Rightarrow> string" where
  "call_name (Call name args) = name"

text \<open>
  The closures the file installs in the property tree, one constructor per shape of lambda:
  \<^item> \<open>Throw msg\<close>: \<open>[](const T&){ throw uhd::runtime_error(msg); }\<close>;
  \<^item> \<open>Method name captured\<close>: a lambda that forwards to \<open>name\<close>, a function outside
    the file, with the value it receives (if any) followed by the captured arguments;
  \<^item> \<open>Set_gain dir chan\<close>: \<open>[this, chan_idx](const double gain){ return this->set_tx_gain(gain, chan_idx); }\<close>
    and its RX twin;
  \<^item> \<open>Get_gain dir chan\<close>: \<open>[this, chan_idx](){ return radio_ctrl_impl::get_tx_gain(chan_idx); }\<close>
    and its RX twin;
  \<^item> \<open>Gain_profile_coercer dir\<close> and \<open>Gain_profile_publisher dir\<close>: the two lambdas of
    the \<open>gains/all/profile/value\<close> node;
  \<^item> \<open>Lo_locked_publisher dir\<close>: the publisher of the \<open>sensors/lo_locked\<close> node;
  \<^item> \<open>Mpm_sensor_publisher trx name chan\<close>: the publisher of a remote sensor node.
\<close>

datatype closure =
    Throw string
  | Method string "pval list"
  | Set_gain direction_t nat
  | Get_gain direction_t nat
  | Gain_profile_coercer direction_t
  | Gain_profile_publisher direction_t
  | Lo_locked_publisher direction_t
  | Mpm_sensor_publisher string string nat

text \<open>
  A property node: the stored value (none until the first write), the coercer, the
  publisher, and the coerced subscribers in registration order.
\<close>

record node =
  nvalue :: "pval option"
  coercer :: "closure option"
  publisher :: "closure option"
  subscribers :: "closure list"

definition empty_node :: node where
  "empty_node = \<lparr>nvalue = None, coercer = None, publisher = None, subscribers = []\<rparr>"

text \<open>
  The controller state: the property tree, \<open>_gain_profile\<close>, the per-channel gain stored by
  the base class, and the log of calls that left the file, oldest first.
\<close>

record ctrl =
  tree :: "fs_path \<Rightarrow> node option"
  gain_profile :: "direction_t \<Rightarrow> string"
  stored_gain :: "direction_t \<times> nat \<Rightarrow> real option"
  calls :: "call list"

text \<open>
  The constants of \<open>rhodium_constants.hpp\<close> and the members of the controller that the file
  reads but does not define, taken as parameters.
\<close>

record rhodium_env =
  RHODIUM_LO1 :: string
  RHODIUM_LO2 :: string
  RHODIUM_LO_GAIN :: string
  RHODIUM_LO_POWER :: string
  RHODIUM_RX_ANTENNAS :: "string list"
  RHODIUM_MIN_FREQ :: real
  RHODIUM_MAX_FREQ :: real
  RHODIUM_LO1_REF_FREQ :: real
  max_if_hdr_words64 :: "64 word"
  gain_range :: "direction_t \<Rightarrow> real \<times> real"
  num_rx_chans :: nat
  num_tx_chans :: nat
  spp_arg_path :: fs_path
  radio_slot :: string
  root_path :: fs_path
  rpc_prefix :: string
  master_clock_rate :: real

text \<open>
  The code outside the file answers a call with a value or a failure; the answer may depend
  on every call made before.
\<close>

type_synonym hw = "call \<Rightarrow> call list \<Rightarrow> error + pval"

type_synonym 'a result = "(error + 'a) \<times> ctrl"

type_synonym stmt = "ctrl \<Rightarrow> unit result"

definition external :: "hw \<Rightarrow> call \<Rightarrow> ctrl \<Rightarrow> pval result" where
  "external h c s = (h c (calls s), s\<lparr>calls := calls s @ [c]\<rparr>)"

text \<open>A statement whose value is dropped.\<close>

definition discard :: "(ctrl \<Rightarrow> 'a result) \<Rightarrow> stmt" where
  "discard a s = (case a s of (Inl e, s') \<Rightarrow> (Inl e, s') | (Inr v, s') \<Rightarrow> (Inr (), s'))"

text \<open>Statements in sequence: the first exception ends the sequence.\<close>

fun exec :: "stmt list \<Rightarrow> stmt" where
  "exec [] s = (Inr (), s)"
| "exec (a # as) s = (case a s of (Inl e, s') \<Rightarrow> (Inl e, s') | (Inr u, s') \<Rightarrow> exec as s')"

text \<open>\<open>for (size_t chan = first; chan < n; chan++) body(chan);\<close>\<close>

function for_chan :: "nat \<Rightarrow> nat \<Rightarrow> (nat \<Rightarrow> stmt) \<Rightarrow> stmt" where
  "for_chan chan n body s =
     (if chan < n
      then (case body chan s of (Inl e, s') \<Rightarrow> (Inl e, s') | (Inr u, s') \<Rightarrow> for_chan (Suc chan) n body s')
      else (Inr (), s))"
  by pat_completeness auto
termination
  by (relation "measure (\<lambda>(chan, n, body, s). n - chan)") auto

declare for_chan.simps [simp del]

subsection \<open>The gain setters\<close>

text \<open>
  Modelled from the spec: \<open>radio_ctrl_impl::set_rx_gain\<close> and
  \<open>radio_ctrl_impl::set_tx_gain\<close> (the base class, outside the file) store the gain of
  the channel and return it.
\<close>

definition base_set_gain_name :: "direction_t \<Rightarrow> string" where
  "base_set_gain_name d =
     (if d = RX_DIRECTION then ''radio_ctrl_impl::set_rx_gain'' else ''radio_ctrl_impl::set_tx_gain'')"

definition radio_ctrl_impl_set_gain :: "direction_t \<Rightarrow> real \<Rightarrow> nat \<Rightarrow> ctrl \<Rightarrow> pval result" where
  "radio_ctrl_impl_set_gain d g chan s =
     (Inr (VDouble g),
      s\<lparr>stored_gain := (stored_gain s)((d, chan) \<mapsto> g),
        calls := calls s @ [Call (base_set_gain_name d) [VDouble g, Index chan]]\<rparr>)"

text \<open>
  Modelled from the spec: \<open>radio_ctrl_impl::get_rx_gain\<close> and \<open>get_tx_gain\<close> return the
  gain stored for the channel.
\<close>

definition base_get_gain_name :: "direction_t \<Rightarrow> string" where
  "base_get_gain_name d =
     (if d = RX_DIRECTION then ''radio_ctrl_impl::get_rx_gain'' else ''radio_ctrl_impl::get_tx_gain'')"

definition radio_ctrl_impl_get_gain :: "direction_t \<Rightarrow> nat \<Rightarrow> ctrl \<Rightarrow> pval result" where
  "radio_ctrl_impl_get_gain d chan s =
     ((case stored_gain s (d, chan) of
         None \<Rightarrow> Inl (external_error (base_get_gain_name d))
       | Some g \<Rightarrow> Inr (VDouble g)),
      s\<lparr>calls := calls s @ [Call (base_get_gain_name d) [Index chan]]\<rparr>)"

text \<open>
  Modelled from the spec: \<open>set_rx_gain\<close> and \<open>set_tx_gain\<close> of the Rhodium controller
  (defined outside the file). The request is clamped to the gain range of the direction; a
  request whose clamped value equals the stored gain is a no-op on the hardware, any other
  takes the hardware path (the call \<open>hardware gain write\<close>); the clamped value is stored
  and returned.
\<close>

definition clip :: "real \<times> real \<Rightarrow> real \<Rightarrow> real" where
  "clip rng g = max (fst rng) (min (snd rng) g)"

definition set_gain_name :: "direction_t \<Rightarrow> string" where
  "set_gain_name d = (if d = RX_DIRECTION then ''set_rx_gain'' else ''set_tx_gain'')"

definition hardware_gain_write :: "direction_t \<Rightarrow> real \<Rightarrow> nat \<Rightarrow> call" where
  "hardware_gain_write d index chan = Call ''hardware gain write'' [Dir d, VDouble index, Index chan]"

definition set_gain :: "rhodium_env \<Rightarrow> hw \<Rightarrow> direction_t \<Rightarrow> real \<Rightarrow> nat \<Rightarrow> ctrl \<Rightarrow> pval result" where
  "set_gain env h d g chan s =
     (let index = clip (gain_range env d) g;
          s1 = s\<lparr>calls := calls s @ [Call (set_gain_name d) [VDouble g, Index chan]]\<rparr>
      in if stored_gain s1 (d, chan) = Some index then (Inr (VDouble index), s1)
         else (case external h (hardware_gain_write d index chan) s1 of
                 (Inl e, s2) \<Rightarrow> (Inl e, s2)
               | (Inr u, s2) \<Rightarrow>
                   (Inr (VDouble index), s2\<lparr>stored_gain := (stored_gain s2)((d, chan) \<mapsto> index)\<rparr>)))"

subsection \<open>Running a closure\<close>

definition RHODIUM_GP_OPTIONS :: "string list" where
  "RHODIUM_GP_OPTIONS = [''default'']"

definition has :: "'a list \<Rightarrow> 'a \<Rightarrow> bool" where
  "has xs x = (x \<in> set xs)"

text \<open>
  The two remote calls of the file: \<open>_rpcc->request_with_token<T>(_rpc_prefix + method, args...)\<close>.
\<close>

definition get_sensors_request :: "rhodium_env \<Rightarrow> string \<Rightarrow> call" where
  "get_sensors_request env trx =
     Call ''request_with_token'' [VStr (rpc_prefix env @ ''get_sensors''), VStr trx]"

definition get_sensor_request :: "rhodium_env \<Rightarrow> string \<Rightarrow> string \<Rightarrow> nat \<Rightarrow> call" where
  "get_sensor_request env trx sensor_name chan_idx =
     Call ''request_with_token''
       [VStr (rpc_prefix env @ ''get_sensor''), VStr trx, VStr sensor_name, Index chan_idx]"

text \<open>
  \<open>invoke env h c arg\<close> runs the closure \<open>c\<close>: with \<open>Some v\<close> as a coercer or a
  subscriber of the written value \<open>v\<close>, with \<open>None\<close> as a publisher.
\<close>

fun invoke :: "rhodium_env \<Rightarrow> hw \<Rightarrow> closure \<Rightarrow> pval option \<Rightarrow> ctrl \<Rightarrow> pval result" where
  "invoke env h (Throw msg) arg s = (Inl (runtime_error msg), s)"
| "invoke env h (Method name captured) arg s =
     external h (Call name (case arg of None \<Rightarrow> captured | Some v \<Rightarrow> v # captured)) s"
| "invoke env h (Set_gain d chan) arg s =
     (case arg of Some (VDouble g) \<Rightarrow> set_gain env h d g chan s | _ \<Rightarrow> (Inl type_error, s))"
| "invoke env h (Get_gain d chan) arg s =
     (case arg of None \<Rightarrow> radio_ctrl_impl_get_gain d chan s | _ \<Rightarrow> (Inl type_error, s))"
| "invoke env h (Gain_profile_coercer d) arg s =
     (case arg of
        Some (VStr profile) \<Rightarrow>
          (let return_profile = (if \<not> has RHODIUM_GP_OPTIONS profile then ''default'' else profile)
           in (Inr (VStr return_profile), s\<lparr>gain_profile := (gain_profile s)(d := return_profile)\<rparr>))
      | _ \<Rightarrow> (Inl type_error, s))"
| "invoke env h (Gain_profile_publisher d) arg s =
     (case arg of None \<Rightarrow> (Inr (VStr (gain_profile s d)), s) | _ \<Rightarrow> (Inl type_error, s))"
| "invoke env h (Lo_locked_publisher d) arg s =
     (case arg of
        None \<Rightarrow>
          (case external h (Call ''get_lo_lock_status'' [Dir d]) s of
             (Inl e, s') \<Rightarrow> (Inl e, s')
           | (Inr (VBool b), s') \<Rightarrow> (Inr (Sensor_bool ''all_los'' b ''locked'' ''unlocked''), s')
           | (Inr _, s') \<Rightarrow> (Inl type_error, s'))
      | _ \<Rightarrow> (Inl type_error, s))"
| "invoke env h (Mpm_sensor_publisher trx sensor_name chan) arg s =
     (case arg of
        None \<Rightarrow>
          (case external h (get_sensor_request env trx sensor_name chan) s of
             (Inl e, s') \<Rightarrow> (Inl e, s')
           | (Inr (Sensor_map m), s') \<Rightarrow> (Inr (Sensor_map m), s')
           | (Inr _, s') \<Rightarrow> (Inl type_error, s'))
      | _ \<Rightarrow> (Inl type_error, s))"

subsection \<open>The property tree engine\<close>

text \<open>
  Modelled from the spec: the property tree (\<open>uhd::property_tree\<close>) is declared outside
  the file. \<open>create\<close> installs an empty node (replacing a node already at the path) and
  runs the chained calls on it; \<open>set\<close> fails on an absent path, runs the coercer if there
  is one, stores the coerced value, then fires the subscribers in registration order with
  the coerced value, and an exception of a subscriber propagates with the value already
  stored; \<open>get\<close> fails on an absent path, returns what the publisher returns if there is
  one and the stored value otherwise; \<open>exists\<close> never fails; a subtree resolves its paths
  under its root.
\<close>

definition exists_path :: "fs_path \<Rightarrow> ctrl \<Rightarrow> bool" where
  "exists_path p s = (tree s p \<noteq> None)"

fun notify :: "rhodium_env \<Rightarrow> hw \<Rightarrow> closure list \<Rightarrow> pval \<Rightarrow> stmt" where
  "notify env h [] v s = (Inr (), s)"
| "notify env h (c # cs) v s =
     (case invoke env h c (Some v) s of
        (Inl e, s') \<Rightarrow> (Inl e, s')
      | (Inr u, s') \<Rightarrow> notify env h cs v s')"

definition store :: "fs_path \<Rightarrow> pval \<Rightarrow> ctrl \<Rightarrow> ctrl" where
  "store p v s =
     (case tree s p of
        None \<Rightarrow> s
      | Some n \<Rightarrow> s\<lparr>tree := (tree s)(p \<mapsto> n\<lparr>nvalue := Some v\<rparr>)\<rparr>)"

definition property_set :: "rhodium_env \<Rightarrow> hw \<Rightarrow> fs_path \<Rightarrow> pval \<Rightarrow> ctrl \<Rightarrow> pval result" where
  "property_set env h p v s =
     (case tree s p of
        None \<Rightarrow> (Inl (NoSuchPathError p), s)
      | Some n \<Rightarrow>
          (case (case coercer n of None \<Rightarrow> (Inr v, s) | Some c \<Rightarrow> invoke env h c (Some v) s) of
             (Inl e, s1) \<Rightarrow> (Inl e, s1)
           | (Inr cv, s1) \<Rightarrow>
               (case notify env h (subscribers n) cv (store p cv s1) of
                  (Inl e, s2) \<Rightarrow> (Inl e, s2)
                | (Inr u, s2) \<Rightarrow> (Inr cv, s2))))"

definition property_get :: "rhodium_env \<Rightarrow> hw \<Rightarrow> fs_path \<Rightarrow> ctrl \<Rightarrow> pval result" where
  "property_get env h p s =
     (case tree s p of
        None \<Rightarrow> (Inl (NoSuchPathError p), s)
      | Some n \<Rightarrow>
          (case publisher n of
             Some c \<Rightarrow> invoke env h c None s
           | None \<Rightarrow>
               (case nvalue n of
                  None \<Rightarrow> (Inl (uninitialized_error p), s)
                | Some v \<Rightarrow> (Inr v, s))))"

text \<open>
  The calls chained on the property that \<open>create\<close> returns: \<open>.set(v)\<close>,
  \<open>.add_coerced_subscriber(c)\<close>, \<open>.set_publisher(c)\<close> and \<open>.set_coercer(c)\<close>.
\<close>

datatype link =
    Set_value pval
  | Add_coerced_subscriber closure
  | Set_publisher closure
  | Set_coercer closure

definition update_node :: "(node \<Rightarrow> node) \<Rightarrow> fs_path \<Rightarrow> stmt" where
  "update_node f p s =
     (case tree s p of
        None \<Rightarrow> (Inl (NoSuchPathError p), s)
      | Some n \<Rightarrow> (Inr (), s\<lparr>tree := (tree s)(p \<mapsto> f n)\<rparr>))"

fun chained :: "rhodium_env \<Rightarrow> hw \<Rightarrow> link \<Rightarrow> fs_path \<Rightarrow> stmt" where
  "chained env h (Set_value v) p = discard (property_set env h p v)"
| "chained env h (Add_coerced_subscriber c) p =
     update_node (\<lambda>n. n\<lparr>subscribers := subscribers n @ [c]\<rparr>) p"
| "chained env h (Set_publisher c) p = update_node (\<lambda>n. n\<lparr>publisher := Some c\<rparr>) p"
| "chained env h (Set_coercer c) p = update_node (\<lambda>n. n\<lparr>coercer := Some c\<rparr>) p"

definition install :: "fs_path \<Rightarrow> stmt" where
  "install p s = (Inr (), s\<lparr>tree := (tree s)(p \<mapsto> empty_node)\<rparr>)"

definition create :: "rhodium_env \<Rightarrow> hw \<Rightarrow> fs_path \<Rightarrow> link list \<Rightarrow> stmt" where
  "create env h p chain = exec (install p # map (\<lambda>l. chained env h l p) chain)"

text \<open>The creates of a list of nodes, in order, under the root of a subtree.\<close>

definition create_all :: "rhodium_env \<Rightarrow> hw \<Rightarrow> fs_path \<Rightarrow> (fs_path \<times> link list) list \<Rightarrow> stmt" where
  "create_all env h subtree nodes = exec (map (\<lambda>(p, chain). create env h (subtree @ p) chain) nodes)"

subsection \<open>Constants of the file\<close>

definition TX_FE_BASE :: "32 word" where "TX_FE_BASE = 224"
definition RX_FE_BASE :: "32 word" where "RX_FE_BASE = 232"

definition RHODIUM_DEFAULT_FREQ :: real where "RHODIUM_DEFAULT_FREQ = 2500000000"
definition RHODIUM_DEFAULT_INVALID_GAIN :: real where "RHODIUM_DEFAULT_INVALID_GAIN = - 1"
definition RHODIUM_DEFAULT_GAIN :: real where "RHODIUM_DEFAULT_GAIN = 0"
definition RHODIUM_DEFAULT_LO_GAIN :: real where "RHODIUM_DEFAULT_LO_GAIN = 30"
definition RHODIUM_DEFAULT_RX_ANTENNA :: string where "RHODIUM_DEFAULT_RX_ANTENNA = ''RX2''"
definition RHODIUM_DEFAULT_TX_ANTENNA :: string where "RHODIUM_DEFAULT_TX_ANTENNA = ''TX/RX''"
definition RHODIUM_DEFAULT_BANDWIDTH :: real where "RHODIUM_DEFAULT_BANDWIDTH = 250000000"

subsection \<open>\<open>_init_defaults\<close>\<close>

text \<open>A call outside the file whose value is dropped.\<close>

definition ext :: "hw \<Rightarrow> string \<Rightarrow> pval list \<Rightarrow> stmt" where
  "ext h name args = discard (external h (Call name args))"

definition rx_defaults :: "hw \<Rightarrow> nat \<Rightarrow> stmt" where
  "rx_defaults h chan =
     exec
      [ext h ''radio_ctrl_impl::set_rx_frequency'' [VDouble RHODIUM_DEFAULT_FREQ, Index chan],
       discard (radio_ctrl_impl_set_gain RX_DIRECTION RHODIUM_DEFAULT_INVALID_GAIN chan),
       ext h ''radio_ctrl_impl::set_rx_antenna'' [VStr RHODIUM_DEFAULT_RX_ANTENNA, Index chan],
       ext h ''radio_ctrl_impl::set_rx_bandwidth'' [VDouble RHODIUM_DEFAULT_BANDWIDTH, Index chan]]"

definition tx_defaults :: "hw \<Rightarrow> nat \<Rightarrow> stmt" where
  "tx_defaults h chan =
     exec
      [ext h ''radio_ctrl_impl::set_tx_frequency'' [VDouble RHODIUM_DEFAULT_FREQ, Index chan],
       discard (radio_ctrl_impl_set_gain TX_DIRECTION RHODIUM_DEFAULT_INVALID_GAIN chan),
       ext h ''radio_ctrl_impl::set_tx_antenna'' [VStr RHODIUM_DEFAULT_TX_ANTENNA, Index chan],
       ext h ''radio_ctrl_impl::set_rx_bandwidth'' [VDouble RHODIUM_DEFAULT_BANDWIDTH, Index chan]]"

text \<open>
  The default samples per packet, in \<open>size_t\<close> arithmetic: \<open>sizeof(uint64_t)\<close> is 8 and
  \<open>sizeof(int16_t)\<close> is 2; subtraction and multiplication wrap at 64 bits and the division
  is unsigned.
\<close>

definition max_bytes_header :: "64 word \<Rightarrow> 64 word" where
  "max_bytes_header hdr_words64 = hdr_words64 * 8"

definition default_spp :: "64 word \<Rightarrow> 64 word \<Rightarrow> 64 word" where
  "default_spp mtu_recv hdr_words64 = (mtu_recv - max_bytes_header hdr_words64) div (2 * 2)"

text \<open>
  The write goes to a \<open>property<int>\<close>: the \<open>size_t\<close> is converted to \<open>int\<close>, which keeps
  its low 32 bits.
\<close>

definition update_default_spp :: "rhodium_env \<Rightarrow> hw \<Rightarrow> stmt" where
  "update_default_spp env h s =
     (case property_get env h (segments ''mtu/recv'') s of
        (Inl e, s1) \<Rightarrow> (Inl e, s1)
      | (Inr (VSize mtu_recv), s1) \<Rightarrow>
          discard (property_set env h (slash (spp_arg_path env) ''value'')
                     (VInt (ucast (default_spp mtu_recv (max_if_hdr_words64 env))))) s1
      | (Inr other, s1) \<Rightarrow> (Inl type_error, s1))"

definition init_defaults :: "rhodium_env \<Rightarrow> hw \<Rightarrow> stmt" where
  "init_defaults env h =
     exec
      [for_chan 0 (num_rx_chans env) (rx_defaults h),
       for_chan 0 (num_tx_chans env) (tx_defaults h),
       update_default_spp env h]"

subsection \<open>\<open>_init_peripherals\<close>\<close>

text \<open>
  Every step is a call outside the file, in the order of the source. The objects the calls
  return are kept in members and are named here by the member (\<open>_tx_lo->...\<close>); the
  register addresses \<open>regs::sr_addr(...)\<close> and the control interface \<open>_get_ctrl(0)\<close>
  are named, and the frontend cores take their base constant. The nodes the frontend cores
  add to the tree in \<open>populate_subtree\<close> are outside the model.
\<close>

definition init_peripherals :: "rhodium_env \<Rightarrow> hw \<Rightarrow> stmt" where
  "init_peripherals env h =
     exec
      [ext h ''spi_core_3000::make''
         [Named ''_get_ctrl(0)'', Named ''regs::sr_addr(regs::SPI)'', Named ''regs::rb_addr(regs::RB_SPI)''],
       ext h ''rhodium_cpld_ctrl''
         [generate_write_spi SEN_CPLD get_cpld_spi_config,
          generate_read_spi SEN_CPLD get_cpld_spi_config],
       discard (set_gain env h TX_DIRECTION RHODIUM_DEFAULT_GAIN 0),
       ext h ''set_tx_lo_gain'' [VDouble RHODIUM_DEFAULT_LO_GAIN, VStr (RHODIUM_LO1 env), Index 0],
       discard (set_gain env h RX_DIRECTION RHODIUM_DEFAULT_GAIN 0),
       ext h ''set_rx_lo_gain'' [VDouble RHODIUM_DEFAULT_LO_GAIN, VStr (RHODIUM_LO1 env), Index 0],
       ext h ''lmx2592_iface::make''
         [generate_write_spi SEN_TX_LO get_tx_lo_spi_config,
          generate_read_spi SEN_TX_LO get_tx_lo_spi_config],
       ext h ''_tx_lo->set_reference_frequency'' [VDouble (RHODIUM_LO1_REF_FREQ env)],
       ext h ''_tx_lo->set_mash_order'' [Named ''lmx2592_iface::mash_order_t::THIRD''],
       ext h ''lmx2592_iface::make''
         [generate_write_spi SEN_RX_LO get_rx_lo_spi_config,
          generate_read_spi SEN_RX_LO get_rx_lo_spi_config],
       ext h ''_rx_lo->set_reference_frequency'' [VDouble (RHODIUM_LO1_REF_FREQ env)],
       ext h ''_rx_lo->set_mash_order'' [Named ''lmx2592_iface::mash_order_t::THIRD''],
       ext h ''usrp::gpio_atr::gpio_atr_3000::make''
         [Named ''_get_ctrl(0)'', Named ''regs::sr_addr(regs::GPIO)'', Named ''regs::rb_addr(regs::RB_DB_GPIO)''],
       ext h ''_gpio->set_atr_mode''
         [Named ''usrp::gpio_atr::MODE_GPIO'', Named ''usrp::gpio_atr::gpio_atr_3000::MASK_SET_ALL''],
       ext h ''_gpio->set_gpio_ddr''
         [Named ''usrp::gpio_atr::DDR_OUTPUT'', Named ''usrp::gpio_atr::gpio_atr_3000::MASK_SET_ALL''],
       ext h ''_gpio->set_gpio_out'' [VInt 1, VInt 3],
       ext h ''rx_frontend_core_3000::make'' [Named ''_get_ctrl(0)'', Named ''regs::sr_addr'', VInt RX_FE_BASE],
       ext h ''_rx_fe_core->set_adc_rate'' [VDouble (master_clock_rate env)],
       ext h ''_rx_fe_core->set_dc_offset'' [Named ''rx_frontend_core_3000::DEFAULT_DC_OFFSET_VALUE''],
       ext h ''_rx_fe_core->set_dc_offset_auto'' [Named ''rx_frontend_core_3000::DEFAULT_DC_OFFSET_ENABLE''],
       ext h ''_rx_fe_core->populate_subtree''
         [Path (slash_idx (slash (root_path env) ''rx_fe_corrections'') 0)],
       ext h ''tx_frontend_core_200::make'' [Named ''_get_ctrl(0)'', Named ''regs::sr_addr'', VInt TX_FE_BASE],
       ext h ''_tx_fe_core->set_dc_offset'' [Named ''tx_frontend_core_200::DEFAULT_DC_OFFSET_VALUE''],
       ext h ''_tx_fe_core->set_iq_balance'' [Named ''tx_frontend_core_200::DEFAULT_IQ_BALANCE_VALUE''],
       ext h ''_tx_fe_core->populate_subtree''
         [Path (slash_idx (slash (root_path env) ''tx_fe_corrections'') 0)]]"

subsection \<open>\<open>_init_frontend_subtree\<close>\<close>

text \<open>
  The nodes the function creates, in the order of the source: the path of each node under
  the subtree, and the calls chained on it, in the order of the source.
\<close>

definition frontend_subtree_nodes :: "rhodium_env \<Rightarrow> nat \<Rightarrow> (fs_path \<times> link list) list" where
  "frontend_subtree_nodes env chan_idx =
     (let tx_fe_path = slash_idx (segments ''tx_frontends'') chan_idx;
          rx_fe_path = slash_idx (segments ''rx_frontends'') chan_idx
      in
      [
       (slashes tx_fe_path [''name''],
         [Set_value (VStr ''Rhodium'')]),
       (slashes tx_fe_path [''connection''],
         [Add_coerced_subscriber (Method ''_set_tx_fe_connection'' []),
          Set_publisher (Method ''_get_tx_fe_connection'' [])]),
       (slashes tx_fe_path [''tune_args''],
         [Set_value (Device_addr)]),
       (slashes rx_fe_path [''name''],
         [Set_value (VStr ''Rhodium'')]),
       (slashes rx_fe_path [''connection''],
         [Add_coerced_subscriber (Method ''_set_rx_fe_connection'' []),
          Set_publisher (Method ''_get_rx_fe_connection'' [])]),
       (slashes rx_fe_path [''tune_args''],
         [Set_value (Device_addr)]),
       (slashes tx_fe_path [''antenna'', ''value''],
         [Add_coerced_subscriber (Method ''set_tx_antenna'' [Index chan_idx]),
          Set_publisher (Method ''get_tx_antenna'' [Index chan_idx])]),
       (slashes tx_fe_path [''antenna'', ''options''],
         [Set_value (VStrs [RHODIUM_DEFAULT_TX_ANTENNA]),
          Add_coerced_subscriber (Throw ''Attempting to update antenna options!'')]),
       (slashes rx_fe_path [''antenna'', ''value''],
         [Add_coerced_subscriber (Method ''set_rx_antenna'' [Index chan_idx]),
          Set_publisher (Method ''get_rx_antenna'' [Index chan_idx])]),
       (slashes rx_fe_path [''antenna'', ''options''],
         [Set_value (VStrs (RHODIUM_RX_ANTENNAS env)),
          Add_coerced_subscriber (Throw ''Attempting to update antenna options!'')]),
       (slashes tx_fe_path [''freq'', ''value''],
         [Set_coercer (Method ''set_tx_frequency'' [Index chan_idx]),
          Set_publisher (Method ''get_tx_frequency'' [Index chan_idx])]),
       (slashes tx_fe_path [''freq'', ''range''],
         [Set_value (Meta_range (RHODIUM_MIN_FREQ env) (RHODIUM_MAX_FREQ env) 1),
          Add_coerced_subscriber (Throw ''Attempting to update freq range!'')]),
       (slashes rx_fe_path [''freq'', ''value''],
         [Set_coercer (Method ''set_rx_frequency'' [Index chan_idx]),
          Set_publisher (Method ''get_rx_frequency'' [Index chan_idx])]),
       (slashes rx_fe_path [''freq'', ''range''],
         [Set_value (Meta_range (RHODIUM_MIN_FREQ env) (RHODIUM_MAX_FREQ env) 1),
          Add_coerced_subscriber (Throw ''Attempting to update freq range!'')]),
       (slashes tx_fe_path [''bandwidth'', ''value''],
         [Set_coercer (Method ''set_tx_bandwidth'' [Index chan_idx]),
          Set_publisher (Method ''get_tx_bandwidth'' [Index chan_idx])]),
       (slashes tx_fe_path [''bandwidth'', ''range''],
         [Set_value (Meta_range 0 0 0),
          Add_coerced_subscriber (Throw ''Attempting to update bandwidth range!'')]),
       (slashes rx_fe_path [''bandwidth'', ''value''],
         [Set_coercer (Method ''set_rx_bandwidth'' [Index chan_idx]),
          Set_publisher (Method ''get_rx_bandwidth'' [Index chan_idx])]),
       (slashes rx_fe_path [''bandwidth'', ''range''],
         [Set_value (Meta_range 0 0 0),
          Add_coerced_subscriber (Throw ''Attempting to update bandwidth range!'')]),
       (slashes tx_fe_path [''gains'', ''all'', ''value''],
         [Set_coercer (Set_gain TX_DIRECTION chan_idx),
          Set_publisher (Get_gain TX_DIRECTION chan_idx)]),
       (slashes tx_fe_path [''gains'', ''all'', ''range''],
         [Add_coerced_subscriber (Throw ''Attempting to update gain range!''),
          Set_publisher (Method ''_get_gain_range'' [Dir TX_DIRECTION])]),
       (slashes tx_fe_path [''gains/all/profile/options''],
         [Set_value (VStrs RHODIUM_GP_OPTIONS)]),
       (slashes tx_fe_path [''gains/all/profile/value''],
         [Set_coercer (Gain_profile_coercer TX_DIRECTION),
          Set_publisher (Gain_profile_publisher TX_DIRECTION)]),
       (slashes rx_fe_path [''gains'', ''all'', ''value''],
         [Set_coercer (Set_gain RX_DIRECTION chan_idx),
          Set_publisher (Get_gain RX_DIRECTION chan_idx)]),
       (slashes rx_fe_path [''gains'', ''all'', ''range''],
         [Add_coerced_subscriber (Throw ''Attempting to update gain range!''),
          Set_publisher (Method ''_get_gain_range'' [Dir RX_DIRECTION])]),
       (slashes rx_fe_path [''gains/all/profile/options''],
         [Set_value (VStrs RHODIUM_GP_OPTIONS)]),
       (slashes rx_fe_path [''gains/all/profile/value''],
         [Set_coercer (Gain_profile_coercer RX_DIRECTION),
          Set_publisher (Gain_profile_publisher RX_DIRECTION)]),
       (slashes tx_fe_path [''sensors'', ''lo_locked''],
         [Set_value (Sensor_bool ''all_los'' False ''locked'' ''unlocked''),
          Add_coerced_subscriber (Throw ''Attempting to write to sensor!''),
          Set_publisher (Lo_locked_publisher TX_DIRECTION)]),
       (slashes rx_fe_path [''sensors'', ''lo_locked''],
         [Set_value (Sensor_bool ''all_los'' False ''locked'' ''unlocked''),
          Add_coerced_subscriber (Throw ''Attempting to write to sensor!''),
          Set_publisher (Lo_locked_publisher RX_DIRECTION)]),
       (slashes rx_fe_path [''los'', RHODIUM_LO1 env, ''freq/value''],
         [Set_publisher (Method ''get_rx_lo_freq'' [VStr (RHODIUM_LO1 env), Index chan_idx]),
          Set_coercer (Method ''set_rx_lo_freq'' [VStr (RHODIUM_LO1 env), Index chan_idx])]),
       (slashes rx_fe_path [''los'', RHODIUM_LO1 env, ''freq/range''],
         [Set_publisher (Method ''get_rx_lo_freq_range'' [VStr (RHODIUM_LO1 env), Index chan_idx])]),
       (slashes rx_fe_path [''los'', RHODIUM_LO1 env, ''source/options''],
         [Set_publisher (Method ''get_rx_lo_sources'' [VStr (RHODIUM_LO1 env), Index chan_idx])]),
       (slashes rx_fe_path [''los'', RHODIUM_LO1 env, ''source/value''],
         [Add_coerced_subscriber (Method ''set_rx_lo_source'' [VStr (RHODIUM_LO1 env), Index chan_idx]),
          Set_publisher (Method ''get_rx_lo_source'' [VStr (RHODIUM_LO1 env), Index chan_idx])]),
       (slashes rx_fe_path [''los'', RHODIUM_LO1 env, ''export''],
         [Add_coerced_subscriber (Method ''set_rx_lo_export_enabled'' [VStr (RHODIUM_LO1 env), Index chan_idx])]),
       (slashes rx_fe_path [''los'', RHODIUM_LO1 env, ''gains'', RHODIUM_LO_GAIN env, ''value''],
         [Set_publisher (Method ''get_rx_lo_gain'' [VStr (RHODIUM_LO1 env), Index chan_idx]),
          Set_coercer (Method ''set_rx_lo_gain'' [VStr (RHODIUM_LO1 env), Index chan_idx])]),
       (slashes rx_fe_path [''los'', RHODIUM_LO1 env, ''gains'', RHODIUM_LO_GAIN env, ''range''],
         [Set_publisher (Method ''_get_lo_gain_range'' []),
          Add_coerced_subscriber (Throw ''Attempting to update LO gain range!'')]),
       (slashes rx_fe_path [''los'', RHODIUM_LO1 env, ''gains'', RHODIUM_LO_POWER env, ''value''],
         [Set_publisher (Method ''get_rx_lo_power'' [VStr (RHODIUM_LO1 env), Index chan_idx]),
          Set_coercer (Method ''set_rx_lo_power'' [VStr (RHODIUM_LO1 env), Index chan_idx])]),
       (slashes rx_fe_path [''los'', RHODIUM_LO1 env, ''gains'', RHODIUM_LO_POWER env, ''range''],
         [Set_publisher (Method ''_get_lo_power_range'' []),
          Add_coerced_subscriber (Throw ''Attempting to update LO output power range!'')]),
       (slashes rx_fe_path [''los'', RHODIUM_LO2 env, ''freq/value''],
         [Set_publisher (Method ''get_rx_lo_freq'' [VStr (RHODIUM_LO2 env), Index chan_idx]),
          Set_coercer (Method ''set_rx_lo_freq'' [VStr (RHODIUM_LO2 env), Index chan_idx])]),
       (slashes rx_fe_path [''los'', RHODIUM_LO2 env, ''freq/range''],
         [Set_publisher (Method ''get_rx_lo_freq_range'' [VStr (RHODIUM_LO2 env), Index chan_idx])]),
       (slashes rx_fe_path [''los'', RHODIUM_LO2 env, ''source/options''],
         [Set_publisher (Method ''get_rx_lo_sources'' [VStr (RHODIUM_LO2 env), Index chan_idx])]),
       (slashes rx_fe_path [''los'', RHODIUM_LO2 env, ''source/value''],
         [Add_coerced_subscriber (Method ''set_rx_lo_source'' [VStr (RHODIUM_LO2 env), Index chan_idx]),
          Set_publisher (Method ''get_rx_lo_source'' [VStr (RHODIUM_LO2 env), Index chan_idx])]),
       (slashes rx_fe_path [''los'', RHODIUM_LO2 env, ''export''],
         [Add_coerced_subscriber (Method ''set_rx_lo_export_enabled'' [VStr (RHODIUM_LO2 env), Index chan_idx])]),
       (slashes tx_fe_path [''los'', RHODIUM_LO1 env, ''freq/value ''],
         [Set_publisher (Method ''get_tx_lo_freq'' [VStr (RHODIUM_LO1 env), Index chan_idx]),
          Set_coercer (Method ''set_tx_lo_freq'' [VStr (RHODIUM_LO1 env), Index chan_idx])]),
       (slashes tx_fe_path [''los'', RHODIUM_LO1 env, ''freq/range''],
         [Set_publisher (Method ''get_rx_lo_freq_range'' [VStr (RHODIUM_LO1 env), Index chan_idx])]),
       (slashes tx_fe_path [''los'', RHODIUM_LO1 env, ''source/options''],
         [Set_publisher (Method ''get_tx_lo_sources'' [VStr (RHODIUM_LO1 env), Index chan_idx])]),
       (slashes tx_fe_path [''los'', RHODIUM_LO1 env, ''source/value''],
         [Add_coerced_subscriber (Method ''set_tx_lo_source'' [VStr (RHODIUM_LO1 env), Index chan_idx]),
          Set_publisher (Method ''get_tx_lo_source'' [VStr (RHODIUM_LO1 env), Index chan_idx])]),
       (slashes tx_fe_path [''los'', RHODIUM_LO1 env, ''export''],
         [Add_coerced_subscriber (Method ''set_tx_lo_export_enabled'' [VStr (RHODIUM_LO1 env), Index chan_idx])]),
       (slashes tx_fe_path [''los'', RHODIUM_LO1 env, ''gains'', RHODIUM_LO_GAIN env, ''value''],
         [Set_publisher (Method ''get_tx_lo_gain'' [VStr (RHODIUM_LO1 env), Index chan_idx]),
          Set_coercer (Method ''set_tx_lo_gain'' [VStr (RHODIUM_LO1 env), Index chan_idx])]),
       (slashes tx_fe_path [''los'', RHODIUM_LO1 env, ''gains'', RHODIUM_LO_GAIN env, ''range''],
         [Set_publisher (Method ''_get_lo_gain_range'' []),
          Add_coerced_subscriber (Throw ''Attempting to update LO gain range!'')]),
       (slashes tx_fe_path [''los'', RHODIUM_LO1 env, ''gains'', RHODIUM_LO_POWER env, ''value''],
         [Set_publisher (Method ''get_tx_lo_power'' [VStr (RHODIUM_LO1 env), Index chan_idx]),
          Set_coercer (Method ''set_tx_lo_power'' [VStr (RHODIUM_LO1 env), Index chan_idx])]),
       (slashes tx_fe_path [''los'', RHODIUM_LO1 env, ''gains'', RHODIUM_LO_POWER env, ''range''],
         [Set_publisher (Method ''_get_lo_power_range'' []),
          Add_coerced_subscriber (Throw ''Attempting to update LO output power range!'')]),
       (slashes tx_fe_path [''los'', RHODIUM_LO2 env, ''freq/value''],
         [Set_publisher (Method ''get_tx_lo_freq'' [VStr (RHODIUM_LO2 env), Index chan_idx]),
          Set_coercer (Method ''set_tx_lo_freq'' [VStr (RHODIUM_LO2 env), Index chan_idx])]),
       (slashes tx_fe_path [''los'', RHODIUM_LO2 env, ''freq/range''],
         [Set_publisher (Method ''get_tx_lo_freq_range'' [VStr (RHODIUM_LO2 env), Index chan_idx])]),
       (slashes tx_fe_path [''los'', RHODIUM_LO2 env, ''source/options''],
         [Set_publisher (Method ''get_tx_lo_sources'' [VStr (RHODIUM_LO2 env), Index chan_idx])]),
       (slashes tx_fe_path [''los'', RHODIUM_LO2 env, ''source/value''],
         [Add_coerced_subscriber (Method ''set_tx_lo_source'' [VStr (RHODIUM_LO2 env), Index chan_idx]),
          Set_publisher (Method ''get_tx_lo_source'' [VStr (RHODIUM_LO2 env), Index chan_idx])]),
       (slashes tx_fe_path [''los'', RHODIUM_LO2 env, ''export''],
         [Add_coerced_subscriber (Method ''set_tx_lo_export_enabled'' [VStr (RHODIUM_LO2 env), Index chan_idx])])])"

definition init_frontend_subtree :: "rhodium_env \<Rightarrow> hw \<Rightarrow> fs_path \<Rightarrow> nat \<Rightarrow> stmt" where
  "init_frontend_subtree env h subtree chan_idx =
     create_all env h subtree (frontend_subtree_nodes env chan_idx)"

subsection \<open>\<open>_init_prop_tree\<close>\<close>

definition init_prop_tree :: "rhodium_env \<Rightarrow> hw \<Rightarrow> stmt" where
  "init_prop_tree env h =
     (let fe_base = slash (segments ''dboards'') (radio_slot env)
      in exec
      [init_frontend_subtree env h fe_base 0,
       create env h (slash (root_path env) ''eeprom'') [Set_value Eeprom_map],
       create env h (slashes (segments ''rx_codecs'') [radio_slot env, ''gains'']) [],
       create env h (slashes (segments ''tx_codecs'') [radio_slot env, ''gains'']) [],
       create env h (slashes (segments ''rx_codecs'') [radio_slot env, ''name'']) [Set_value (VStr ''ad9695-625'')],
       create env h (slashes (segments ''tx_codecs'') [radio_slot env, ''name'']) [Set_value (VStr ''dac37j82'')],
       (\<lambda>s. if \<not> exists_path (segments ''tick_rate'') s
            then create env h (segments ''tick_rate'') [Set_publisher (Method ''get_rate'' [])] s
            else (Inr (), s))])"

subsection \<open>\<open>_init_mpm_sensors\<close>\<close>

definition mpm_sensor_node :: "rhodium_env \<Rightarrow> hw \<Rightarrow> fs_path \<Rightarrow> string \<Rightarrow> nat \<Rightarrow> string \<Rightarrow> stmt" where
  "mpm_sensor_node env h fe_path trx chan_idx sensor_name =
     create env h (slashes fe_path [''sensors'', sensor_name])
       [Add_coerced_subscriber (Throw ''Attempting to write to sensor!''),
        Set_publisher (Mpm_sensor_publisher trx sensor_name chan_idx)]"

definition sensor_trx :: "direction_t \<Rightarrow> string" where
  "sensor_trx dir = (if dir = RX_DIRECTION then ''RX'' else ''TX'')"

definition sensor_fe_path :: "rhodium_env \<Rightarrow> direction_t \<Rightarrow> nat \<Rightarrow> fs_path" where
  "sensor_fe_path env dir chan_idx =
     slash_idx (slashes (segments ''dboards'')
                  [radio_slot env, if dir = RX_DIRECTION then ''rx_frontends'' else ''tx_frontends''])
       chan_idx"

definition init_mpm_sensors :: "rhodium_env \<Rightarrow> hw \<Rightarrow> direction_t \<Rightarrow> nat \<Rightarrow> stmt" where
  "init_mpm_sensors env h dir chan_idx s =
     (let trx = sensor_trx dir;
          fe_path = sensor_fe_path env dir chan_idx
      in case external h (get_sensors_request env trx) s of
           (Inl e, s1) \<Rightarrow> (Inl e, s1)
         | (Inr (VStrs sensor_list), s1) \<Rightarrow>
             exec (map (mpm_sensor_node env h fe_path trx chan_idx) sensor_list) s1
         | (Inr other, s1) \<Rightarrow> (Inl type_error, s1))"

text \<open>
  Modelled from the spec: the constructor of the controller is outside the file; bring-up
  writes the defaults, brings the peripherals up and wires the property tree, in this order.
\<close>

definition bring_up :: "rhodium_env \<Rightarrow> hw \<Rightarrow> stmt" where
  "bring_up env h = exec [init_defaults env h, init_peripherals env h, init_prop_tree env h]"

section \<open>Notions used to state the properties\<close>

text \<open>A name that is one path segment: not empty, no \<open>/\<close>.\<close>

definition segment_name :: "string \<Rightarrow> bool" where
  "segment_name str = (str \<noteq> [] \<and> CHR ''/'' \<notin> set str)"

text \<open>
  The LO and LO gain names of \<open>rhodium_constants.hpp\<close> are segment names, and the two LO
  names differ, as do the two gain names.
\<close>

definition env_ok :: "rhodium_env \<Rightarrow> bool" where
  "env_ok env =
     (segment_name (RHODIUM_LO1 env) \<and> segment_name (RHODIUM_LO2 env) \<and>
      segment_name (RHODIUM_LO_GAIN env) \<and> segment_name (RHODIUM_LO_POWER env) \<and>
      RHODIUM_LO1 env \<noteq> RHODIUM_LO2 env \<and> RHODIUM_LO_GAIN env \<noteq> RHODIUM_LO_POWER env)"

text \<open>The node that a chain of calls leaves behind when no call of the chain fails.\<close>

fun apply_link :: "link \<Rightarrow> node \<Rightarrow> node" where
  "apply_link (Set_value v) n = n\<lparr>nvalue := Some v\<rparr>"
| "apply_link (Add_coerced_subscriber c) n = n\<lparr>subscribers := subscribers n @ [c]\<rparr>"
| "apply_link (Set_publisher c) n = n\<lparr>publisher := Some c\<rparr>"
| "apply_link (Set_coercer c) n = n\<lparr>coercer := Some c\<rparr>"

fun built_from :: "node \<Rightarrow> link list \<Rightarrow> node" where
  "built_from n [] = n"
| "built_from n (l # ls) = built_from (apply_link l n) ls"

definition built :: "link list \<Rightarrow> node" where
  "built chain = built_from empty_node chain"

text \<open>
  A chain is plain when each of its \<open>.set(v)\<close> meets a node that has no coercer and no
  subscriber yet: such a write runs no closure.
\<close>

fun plain_from :: "node \<Rightarrow> link list \<Rightarrow> bool" where
  "plain_from n [] = True"
| "plain_from n (Set_value v # ls) =
     (coercer n = None \<and> subscribers n = [] \<and> plain_from (apply_link (Set_value v) n) ls)"
| "plain_from n (l # ls) = plain_from (apply_link l n) ls"

definition plain :: "link list \<Rightarrow> bool" where
  "plain chain = plain_from empty_node chain"

text \<open>The tree after the creates of a list of nodes with plain chains.\<close>

fun tree_after ::
  "fs_path \<Rightarrow> (fs_path \<times> link list) list \<Rightarrow> (fs_path \<Rightarrow> node option) \<Rightarrow> fs_path \<Rightarrow> node option" where
  "tree_after r [] t = t"
| "tree_after r ((p, chain) # nodes) t = tree_after r nodes (t(r @ p \<mapsto> built chain))"

text \<open>The frontend path of a direction and a channel, as the source builds it.\<close>

definition fe_path :: "direction_t \<Rightarrow> nat \<Rightarrow> fs_path" where
  "fe_path d chan_idx =
     slash_idx (segments (if d = RX_DIRECTION then ''rx_frontends'' else ''tx_frontends'')) chan_idx"

text \<open>The \<open>gains/all/profile/value\<close> node of a direction, as the source chains it.\<close>

definition profile_node :: "direction_t \<Rightarrow> node" where
  "profile_node d =
     built [Set_coercer (Gain_profile_coercer d), Set_publisher (Gain_profile_publisher d)]"

text \<open>The calls chained on a remote sensor node in \<open>_init_mpm_sensors\<close>.\<close>

definition sensor_chain :: "string \<Rightarrow> nat \<Rightarrow> string \<Rightarrow> link list" where
  "sensor_chain trx chan_idx sensor_name =
     [Add_coerced_subscriber (Throw ''Attempting to write to sensor!''),
      Set_publisher (Mpm_sensor_publisher trx sensor_name chan_idx)]"

text \<open>
  The calls of one turn of the RX loop and of the TX loop of \<open>_init_defaults\<close>, and the
  stored gains after the turns for the channels from \<open>first\<close> up to \<open>n\<close>.
\<close>

definition rx_default_calls :: "nat \<Rightarrow> call list" where
  "rx_default_calls chan =
     [Call ''radio_ctrl_impl::set_rx_frequency'' [VDouble RHODIUM_DEFAULT_FREQ, Index chan],
      Call ''radio_ctrl_impl::set_rx_gain'' [VDouble RHODIUM_DEFAULT_INVALID_GAIN, Index chan],
      Call ''radio_ctrl_impl::set_rx_antenna'' [VStr RHODIUM_DEFAULT_RX_ANTENNA, Index chan],
      Call ''radio_ctrl_impl::set_rx_bandwidth'' [VDouble RHODIUM_DEFAULT_BANDWIDTH, Index chan]]"

definition tx_default_calls :: "nat \<Rightarrow> call list" where
  "tx_default_calls chan =
     [Call ''radio_ctrl_impl::set_tx_frequency'' [VDouble RHODIUM_DEFAULT_FREQ, Index chan],
      Call ''radio_ctrl_impl::set_tx_gain'' [VDouble RHODIUM_DEFAULT_INVALID_GAIN, Index chan],
      Call ''radio_ctrl_impl::set_tx_antenna'' [VStr RHODIUM_DEFAULT_TX_ANTENNA, Index chan],
      Call ''radio_ctrl_impl::set_rx_bandwidth'' [VDouble RHODIUM_DEFAULT_BANDWIDTH, Index chan]]"

definition gains_after ::
  "direction_t \<Rightarrow> nat \<Rightarrow> nat \<Rightarrow> (direction_t \<times> nat \<Rightarrow> real option)
    \<Rightarrow> direction_t \<times> nat \<Rightarrow> real option" where
  "gains_after d first n g k =
     (if fst k = d \<and> first \<le> snd k \<and> snd k < n then Some RHODIUM_DEFAULT_INVALID_GAIN else g k)"

text \<open>
  The calls of \<open>_init_peripherals\<close> that instantiate a piece of hardware or write a
  gain: the steps whose order bring-up is about.
\<close>

definition bringup_step :: "call \<Rightarrow> bool" where
  "bringup_step c =
     (call_name c \<in> set [''spi_core_3000::make'', ''rhodium_cpld_ctrl'',
        ''set_tx_gain'', ''set_tx_lo_gain'', ''set_rx_gain'', ''set_rx_lo_gain'',
        ''lmx2592_iface::make'', ''usrp::gpio_atr::gpio_atr_3000::make'',
        ''rx_frontend_core_3000::make'', ''tx_frontend_core_200::make''])"

text \<open>
  The calls that set the gain of a direction: the setter of the Rhodium controller and the
  hardware gain write.
\<close>

definition gain_call :: "direction_t \<Rightarrow> call \<Rightarrow> bool" where
  "gain_call d c =
     (case c of Call name args \<Rightarrow>
        name = (if d = RX_DIRECTION then ''set_rx_gain'' else ''set_tx_gain'') \<or>
        (name = ''hardware gain write'' \<and> take 1 args = [Dir d]))"

text \<open>A node that holds a value and no closure.\<close>

definition value_node :: "pval \<Rightarrow> node" where
  "value_node v = \<lparr>nvalue = Some v, coercer = None, publisher = None, subscribers = []\<rparr>"

text \<open>
  An environment, an outside world in which every call succeeds, and a controller state
  before initialisation (the tree holds the \<open>mtu/recv\<close> node of the transport and the
  \<open>spp\<close> argument loaded from the block definition), used to instantiate the theorems.
\<close>

definition example_env :: rhodium_env where
  "example_env =
     \<lparr>RHODIUM_LO1 = ''lo1'', RHODIUM_LO2 = ''lowband'',
      RHODIUM_LO_GAIN = ''gain'', RHODIUM_LO_POWER = ''power'',
      RHODIUM_RX_ANTENNAS = [''TX/RX'', ''RX2'', ''CAL'', ''TERM''],
      RHODIUM_MIN_FREQ = 45000000, RHODIUM_MAX_FREQ = 6000000000,
      RHODIUM_LO1_REF_FREQ = 122880000,
      max_if_hdr_words64 = 4,
      gain_range = (\<lambda>d. (0, 60)),
      num_rx_chans = 1, num_tx_chans = 1,
      spp_arg_path = [''args'', ''0'', ''spp''],
      radio_slot = ''A'',
      root_path = [''radio''],
      rpc_prefix = ''db_0_'',
      master_clock_rate = 245760000\<rparr>"

definition example_hw :: hw where
  "example_hw c history =
     (if c = get_sensors_request example_env ''RX'' \<or> c = get_sensors_request example_env ''TX''
      then Inr (VStrs [''lo_locked'', ''temperature''])
      else if call_name c = ''request_with_token''
      then Inr (Sensor_map [(''name'', ''sensor''), (''value'', ''true'')])
      else Inr (Named ''done''))"

definition example_ctrl :: ctrl where
  "example_ctrl =
     \<lparr>tree = [[''mtu'', ''recv''] \<mapsto> value_node (VSize 8000),
              [''args'', ''0'', ''spp'', ''value''] \<mapsto> value_node (VInt 364)],
      gain_profile = (\<lambda>d. []),
      stored_gain = Map.empty,
      calls = []\<rparr>"

section \<open>The engine on chains of calls\<close>

lemma split_segments_plain:
  "CHR ''/'' \<notin> set str \<Longrightarrow> split_segments acc str = (if acc @ str = [] then [] else [acc @ str])"
proof (induction str arbitrary: acc)
  case Nil
  then show ?case by simp
next
  case (Cons c cs)
  then show ?case by auto
qed

lemma segments_name: "segment_name str \<Longrightarrow> segments str = [str]"
  by (simp add: segment_name_def segments_def split_segments_plain)

lemma segments_literal: "segments (c # cs) = split_segments [] (c # cs)"
  by (simp add: segments_def)

lemma of_char_digit_char: "d < 10 \<Longrightarrow> (of_char (digit_char d) :: nat) = 48 + d"
  by (simp add: digit_char_def)

lemma digit_char_not_slash: "d < 10 \<Longrightarrow> CHR ''/'' \<noteq> digit_char d"
proof
  assume "d < 10" and "CHR ''/'' = digit_char d"
  then have "(of_char (CHR ''/'') :: nat) = 48 + d"
    using of_char_digit_char [of d] by simp
  then show False by simp
qed

lemma to_string_no_slash: "CHR ''/'' \<notin> set (to_string n)"
proof (induction n rule: to_string.induct)
  case (1 n)
  show ?case
  proof (cases "n < 10")
    case True
    then show ?thesis by (subst to_string.simps) (simp add: digit_char_not_slash)
  next
    case False
    with 1 show ?thesis by (subst to_string.simps) (simp add: digit_char_not_slash)
  qed
qed

lemma to_string_nonempty: "to_string n \<noteq> []"
  by (subst to_string.simps) simp

lemma segment_name_to_string: "segment_name (to_string n)"
  by (simp add: segment_name_def to_string_no_slash to_string_nonempty)

lemmas path_simps = slashes_def slash_def slash_idx_def segments_name segment_name_to_string
  segments_literal

lemma exec_chained:
  "tree s p = Some n \<Longrightarrow> plain_from n chain \<Longrightarrow>
   exec (map (\<lambda>l. chained env h l p) chain) s
   = (Inr (), s\<lparr>tree := (tree s)(p \<mapsto> built_from n chain)\<rparr>)"
proof (induction chain arbitrary: n s)
  case Nil
  then have "(tree s)(p \<mapsto> n) = tree s" by (simp add: fun_upd_idem)
  then show ?case by simp
next
  case (Cons l ls)
  let ?s' = "s\<lparr>tree := (tree s)(p \<mapsto> apply_link l n)\<rparr>"
  have step: "chained env h l p s = (Inr (), ?s')"
    using Cons.prems
    by (cases l) (simp_all add: discard_def property_set_def store_def update_node_def)
  have plain': "plain_from (apply_link l n) ls"
    using Cons.prems(2) by (cases l) simp_all
  have look: "tree ?s' p = Some (apply_link l n)"
    by simp
  have ih: "exec (map (\<lambda>l. chained env h l p) ls) ?s'
        = (Inr (), ?s'\<lparr>tree := (tree ?s')(p \<mapsto> built_from (apply_link l n) ls)\<rparr>)"
    using look plain' by (rule Cons.IH)
  have fin: "?s'\<lparr>tree := (tree ?s')(p \<mapsto> built_from (apply_link l n) ls)\<rparr>
        = s\<lparr>tree := (tree s)(p \<mapsto> built_from (apply_link l n) ls)\<rparr>"
    by simp
  have "exec (map (\<lambda>l. chained env h l p) (l # ls)) s
        = exec (map (\<lambda>l. chained env h l p) ls) ?s'"
    by (simp add: step)
  also note ih
  also note fin
  finally show ?case by (simp only: built_from.simps)
qed

lemma create_plain:
  assumes pl: "plain chain"
  shows "create env h p chain s = (Inr (), s\<lparr>tree := (tree s)(p \<mapsto> built chain)\<rparr>)"
proof -
  let ?s' = "s\<lparr>tree := (tree s)(p \<mapsto> empty_node)\<rparr>"
  have look: "tree ?s' p = Some empty_node" by simp
  have pf: "plain_from empty_node chain" using pl by (simp add: plain_def)
  have run: "exec (map (\<lambda>l. chained env h l p) chain) ?s'
        = (Inr (), ?s'\<lparr>tree := (tree ?s')(p \<mapsto> built_from empty_node chain)\<rparr>)"
    using look pf by (rule exec_chained)
  have fin: "?s'\<lparr>tree := (tree ?s')(p \<mapsto> built_from empty_node chain)\<rparr>
        = s\<lparr>tree := (tree s)(p \<mapsto> built chain)\<rparr>"
    by (simp add: built_def)
  have "create env h p chain s = exec (map (\<lambda>l. chained env h l p) chain) ?s'"
    by (simp add: create_def install_def)
  also note run
  also note fin
  finally show ?thesis .
qed

lemma create_all_plain:
  "list_all (\<lambda>(p, chain). plain chain) nodes \<Longrightarrow>
   create_all env h r nodes s = (Inr (), s\<lparr>tree := tree_after r nodes (tree s)\<rparr>)"
proof (induction nodes arbitrary: s)
  case Nil
  then show ?case by (simp add: create_all_def)
next
  case (Cons a nodes)
  obtain p chain where a: "a = (p, chain)" by (cases a)
  with Cons.prems have pl: "plain chain" and rest: "list_all (\<lambda>(p, chain). plain chain) nodes"
    by simp_all
  from Cons.IH [OF rest] show ?case
    by (simp add: create_all_def a create_plain [OF pl])
qed

lemma tree_after_other:
  "q \<notin> (\<lambda>(p, chain). r @ p) ` set nodes \<Longrightarrow> tree_after r nodes t q = t q"
  by (induction nodes arbitrary: t) auto

lemma tree_after_created:
  "(p, chain) \<in> set nodes \<Longrightarrow>
   (\<And>chain'. (p, chain') \<in> set nodes \<Longrightarrow> chain' = chain) \<Longrightarrow>
   tree_after r nodes t (r @ p) = Some (built chain)"
proof (induction nodes arbitrary: t)
  case Nil
  then show ?case by simp
next
  case (Cons a nodes)
  obtain p' chain' where a: "a = (p', chain')" by (cases a)
  show ?case
  proof (cases "(p, chain) \<in> set nodes")
    case True
    have "tree_after r nodes (t(r @ p' \<mapsto> built chain')) (r @ p) = Some (built chain)"
      using True Cons.prems(2) by (intro Cons.IH) auto
    then show ?thesis by (simp add: a)
  next
    case False
    with Cons.prems(1) have eq: "p' = p" "chain' = chain" by (simp_all add: a)
    have "(p, c) \<notin> set nodes" for c
      using Cons.prems(2) [of c] False by auto
    then have "r @ p \<notin> (\<lambda>(p, chain). r @ p) ` set nodes" by force
    then show ?thesis by (simp add: a eq tree_after_other)
  qed
qed

lemma tree_after_distinct:
  assumes "distinct (map fst nodes)" and "(p, chain) \<in> set nodes"
  shows "tree_after r nodes t (r @ p) = Some (built chain)"
  using assms(2)
proof (rule tree_after_created)
  fix chain' assume "(p, chain') \<in> set nodes"
  with assms show "chain' = chain" by (meson eq_key_imp_eq_value)
qed

section \<open>The nodes of the frontend subtree\<close>

lemma frontend_subtree_nodes_plain:
  "list_all (\<lambda>(p, chain). plain chain) (frontend_subtree_nodes env chan)"
  by (simp add: frontend_subtree_nodes_def Let_def plain_def empty_node_def)

lemma frontend_subtree_nodes_distinct:
  "env_ok env \<Longrightarrow> distinct (map fst (frontend_subtree_nodes env chan))"
  by (simp add: frontend_subtree_nodes_def Let_def env_ok_def path_simps)

lemma init_frontend_subtree_closed:
  "init_frontend_subtree env h r chan s
   = (Inr (), s\<lparr>tree := tree_after r (frontend_subtree_nodes env chan) (tree s)\<rparr>)"
  unfolding init_frontend_subtree_def
  by (rule create_all_plain) (rule frontend_subtree_nodes_plain)

lemma node_created:
  assumes "env_ok env" and "(p, chain) \<in> set (frontend_subtree_nodes env chan)"
  shows "tree (snd (init_frontend_subtree env h r chan s)) (r @ p) = Some (built chain)"
  using assms
  by (simp add: init_frontend_subtree_closed tree_after_distinct frontend_subtree_nodes_distinct)

lemma node_untouched:
  assumes "q \<notin> (\<lambda>(p, chain). r @ p) ` set (frontend_subtree_nodes env chan)"
  shows "tree (snd (init_frontend_subtree env h r chan s)) q = tree s q"
  using assms by (simp add: init_frontend_subtree_closed tree_after_other)

lemma to_string_0: "to_string 0 = ''0''"
proof -
  have "char_of (of_char (CHR ''0'') :: nat) = CHR ''0''" by (rule char_of_char)
  then have "char_of (48 :: nat) = CHR ''0''" by simp
  then show ?thesis by (simp add: to_string.simps digit_char_def)
qed


lemma frontend_subtree_nodes_length: "length (frontend_subtree_nodes env chan) = 56"
  by (simp add: frontend_subtree_nodes_def Let_def)

lemma node_at:
  assumes ok: "env_ok env" and i: "i < 56"
    and nth: "frontend_subtree_nodes env chan ! i = (p, chain)"
  shows "tree (snd (init_frontend_subtree env h r chan s)) (r @ p) = Some (built chain)"
proof -
  from i have "frontend_subtree_nodes env chan ! i \<in> set (frontend_subtree_nodes env chan)"
    by (simp add: frontend_subtree_nodes_length)
  with nth have "(p, chain) \<in> set (frontend_subtree_nodes env chan)" by simp
  with ok show ?thesis by (rule node_created)
qed

lemma path_at:
  assumes ok: "env_ok env" and i: "i < 56"
    and nth: "fst (frontend_subtree_nodes env chan ! i) = p"
  shows "exists_path (r @ p) (snd (init_frontend_subtree env h r chan s))"
proof -
  obtain chain where "frontend_subtree_nodes env chan ! i = (p, chain)"
    using nth by (cases "frontend_subtree_nodes env chan ! i") simp
  with ok i have "tree (snd (init_frontend_subtree env h r chan s)) (r @ p) = Some (built chain)"
    by (rule node_at)
  then show ?thesis by (simp add: exists_path_def)
qed

lemma example_env_ok: "env_ok example_env"
  by (simp add: env_ok_def example_env_def segment_name_def)

section \<open>The LO frequency nodes\<close>

text \<open>
  C3. After \<open>_init_frontend_subtree\<close> on a subtree that had no node at
  \<open>tx_frontends/<chan>/los/<lo1>/freq/value\<close>, there is still no node at that path: the
  TX LO1 frequency node is created at \<open>freq/value \<close>, with a trailing space in the last
  segment. The frequency nodes of TX LO2, RX LO1 and RX LO2 exist at \<open>freq/value\<close>.
\<close>

theorem C3_tx_lo1_freq_value_path:
  assumes ok: "env_ok env"
    and fresh: "\<not> exists_path
                  (r @ slashes (fe_path TX_DIRECTION chan) [''los'', RHODIUM_LO1 env, ''freq/value'']) s"
  shows "\<not> exists_path (r @ slashes (fe_path TX_DIRECTION chan) [''los'', RHODIUM_LO1 env, ''freq/value''])
             (snd (init_frontend_subtree env h r chan s)) \<and>
         exists_path (r @ slashes (fe_path TX_DIRECTION chan) [''los'', RHODIUM_LO1 env, ''freq/value ''])
             (snd (init_frontend_subtree env h r chan s)) \<and>
         exists_path (r @ slashes (fe_path TX_DIRECTION chan) [''los'', RHODIUM_LO2 env, ''freq/value''])
             (snd (init_frontend_subtree env h r chan s)) \<and>
         exists_path (r @ slashes (fe_path RX_DIRECTION chan) [''los'', RHODIUM_LO1 env, ''freq/value''])
             (snd (init_frontend_subtree env h r chan s)) \<and>
         exists_path (r @ slashes (fe_path RX_DIRECTION chan) [''los'', RHODIUM_LO2 env, ''freq/value''])
             (snd (init_frontend_subtree env h r chan s))"
proof -
  let ?s' = "snd (init_frontend_subtree env h r chan s)"
  let ?missing = "slashes (fe_path TX_DIRECTION chan) [''los'', RHODIUM_LO1 env, ''freq/value'']"
  have "?missing \<notin> fst ` set (frontend_subtree_nodes env chan)"
    using ok by (simp add: frontend_subtree_nodes_def Let_def env_ok_def fe_path_def path_simps)
  then have "r @ ?missing \<notin> (\<lambda>(p, chain). r @ p) ` set (frontend_subtree_nodes env chan)"
    by force
  then have "tree ?s' (r @ ?missing) = tree s (r @ ?missing)"
    by (rule node_untouched)
  with fresh have a: "\<not> exists_path (r @ ?missing) ?s'"
    by (simp add: exists_path_def)
  have b: "exists_path (r @ slashes (fe_path TX_DIRECTION chan) [''los'', RHODIUM_LO1 env, ''freq/value '']) ?s'"
    using ok by (rule path_at [where i = 42]) (simp_all add: frontend_subtree_nodes_def Let_def fe_path_def)
  have c: "exists_path (r @ slashes (fe_path TX_DIRECTION chan) [''los'', RHODIUM_LO2 env, ''freq/value'']) ?s'"
    using ok by (rule path_at [where i = 51]) (simp_all add: frontend_subtree_nodes_def Let_def fe_path_def)
  have d: "exists_path (r @ slashes (fe_path RX_DIRECTION chan) [''los'', RHODIUM_LO1 env, ''freq/value'']) ?s'"
    using ok by (rule path_at [where i = 28]) (simp_all add: frontend_subtree_nodes_def Let_def fe_path_def)
  have e: "exists_path (r @ slashes (fe_path RX_DIRECTION chan) [''los'', RHODIUM_LO2 env, ''freq/value'']) ?s'"
    using ok by (rule path_at [where i = 37]) (simp_all add: frontend_subtree_nodes_def Let_def fe_path_def)
  from a b c d e show ?thesis by simp
qed

theorem C3_tx_lo1_freq_value_path_witness:
  "env_ok example_env \<and>
   \<not> exists_path ([] @ slashes (fe_path TX_DIRECTION 0) [''los'', RHODIUM_LO1 example_env, ''freq/value''])
       example_ctrl \<and>
   \<not> exists_path ([] @ slashes (fe_path TX_DIRECTION 0) [''los'', RHODIUM_LO1 example_env, ''freq/value''])
       (snd (init_frontend_subtree example_env example_hw [] 0 example_ctrl)) \<and>
   exists_path ([] @ slashes (fe_path TX_DIRECTION 0) [''los'', RHODIUM_LO1 example_env, ''freq/value ''])
       (snd (init_frontend_subtree example_env example_hw [] 0 example_ctrl))"
proof -
  have fresh: "\<not> exists_path
      ([] @ slashes (fe_path TX_DIRECTION 0) [''los'', RHODIUM_LO1 example_env, ''freq/value'']) example_ctrl"
    by (simp add: exists_path_def example_ctrl_def example_env_def fe_path_def path_simps)
  from C3_tx_lo1_freq_value_path [OF example_env_ok fresh, of example_hw] example_env_ok fresh
  show ?thesis by simp
qed

text \<open>
  C9. After \<open>_init_frontend_subtree\<close>, a read of the TX LO1 \<open>freq/range\<close> node, in any
  state that still holds the node, is the call \<open>get_rx_lo_freq_range(RHODIUM_LO1, chan)\<close>
  and returns what that call returns, while a read of the TX LO2 \<open>freq/range\<close> node is
  the call \<open>get_tx_lo_freq_range(RHODIUM_LO2, chan)\<close>.
\<close>

theorem C9_tx_lo1_range_reads_rx:
  assumes ok: "env_ok env"
  shows "(\<forall>t. tree t (r @ slashes (fe_path TX_DIRECTION chan) [''los'', RHODIUM_LO1 env, ''freq/range''])
               = tree (snd (init_frontend_subtree env h r chan s))
                   (r @ slashes (fe_path TX_DIRECTION chan) [''los'', RHODIUM_LO1 env, ''freq/range''])
             \<longrightarrow> property_get env h
                   (r @ slashes (fe_path TX_DIRECTION chan) [''los'', RHODIUM_LO1 env, ''freq/range'']) t
                 = (h (Call ''get_rx_lo_freq_range'' [VStr (RHODIUM_LO1 env), Index chan]) (calls t),
                    t\<lparr>calls := calls t @ [Call ''get_rx_lo_freq_range'' [VStr (RHODIUM_LO1 env), Index chan]]\<rparr>)) \<and>
         (\<forall>t. tree t (r @ slashes (fe_path TX_DIRECTION chan) [''los'', RHODIUM_LO2 env, ''freq/range''])
               = tree (snd (init_frontend_subtree env h r chan s))
                   (r @ slashes (fe_path TX_DIRECTION chan) [''los'', RHODIUM_LO2 env, ''freq/range''])
             \<longrightarrow> property_get env h
                   (r @ slashes (fe_path TX_DIRECTION chan) [''los'', RHODIUM_LO2 env, ''freq/range'']) t
                 = (h (Call ''get_tx_lo_freq_range'' [VStr (RHODIUM_LO2 env), Index chan]) (calls t),
                    t\<lparr>calls := calls t @ [Call ''get_tx_lo_freq_range'' [VStr (RHODIUM_LO2 env), Index chan]]\<rparr>))"
proof -
  let ?s' = "snd (init_frontend_subtree env h r chan s)"
  have lo1: "tree ?s' (r @ slashes (fe_path TX_DIRECTION chan) [''los'', RHODIUM_LO1 env, ''freq/range''])
        = Some (built [Set_publisher (Method ''get_rx_lo_freq_range'' [VStr (RHODIUM_LO1 env), Index chan])])"
    using ok by (rule node_at [where i = 43]) (simp_all add: frontend_subtree_nodes_def Let_def fe_path_def)
  have lo2: "tree ?s' (r @ slashes (fe_path TX_DIRECTION chan) [''los'', RHODIUM_LO2 env, ''freq/range''])
        = Some (built [Set_publisher (Method ''get_tx_lo_freq_range'' [VStr (RHODIUM_LO2 env), Index chan])])"
    using ok by (rule node_at [where i = 52]) (simp_all add: frontend_subtree_nodes_def Let_def fe_path_def)
  show ?thesis
    by (simp add: lo1 lo2 property_get_def built_def empty_node_def external_def)
qed

theorem C9_tx_lo1_range_reads_rx_witness:
  "env_ok example_env \<and>
   property_get example_env example_hw
     ([] @ slashes (fe_path TX_DIRECTION 0) [''los'', RHODIUM_LO1 example_env, ''freq/range''])
     (snd (init_frontend_subtree example_env example_hw [] 0 example_ctrl))
   = (example_hw (Call ''get_rx_lo_freq_range'' [VStr (RHODIUM_LO1 example_env), Index 0])
        (calls (snd (init_frontend_subtree example_env example_hw [] 0 example_ctrl))),
      (snd (init_frontend_subtree example_env example_hw [] 0 example_ctrl))
        \<lparr>calls := calls (snd (init_frontend_subtree example_env example_hw [] 0 example_ctrl))
                  @ [Call ''get_rx_lo_freq_range'' [VStr (RHODIUM_LO1 example_env), Index 0]]\<rparr>)"
  using C9_tx_lo1_range_reads_rx [OF example_env_ok, of "[]" 0 example_hw example_ctrl] example_env_ok
  by blast

section \<open>Channels have different paths\<close>

lemma digit_char_inj:
  assumes d: "d < 10" and e: "e < 10" and eq: "digit_char d = digit_char e"
  shows "d = e"
proof -
  have "(of_char (digit_char d) :: nat) = of_char (digit_char e)"
    by (simp only: eq)
  then have "48 + d = 48 + e"
    by (simp only: of_char_digit_char [OF d] of_char_digit_char [OF e])
  then show ?thesis by simp
qed

lemma to_string_inj: "to_string a = to_string b \<Longrightarrow> a = b"
proof (induction a arbitrary: b rule: to_string.induct)
  case (1 a)
  show ?case
  proof (cases "a < 10")
    case small_a: True
    show ?thesis
    proof (cases "b < 10")
      case True
      with small_a "1.prems" show ?thesis
        by (simp add: to_string.simps [of a] to_string.simps [of b] digit_char_inj)
    next
      case False
      with small_a "1.prems" have "to_string (b div 10) = []"
        by (simp add: to_string.simps [of a] to_string.simps [of b])
      then show ?thesis by (simp add: to_string_nonempty)
    qed
  next
    case big_a: False
    show ?thesis
    proof (cases "b < 10")
      case True
      with big_a "1.prems" have "to_string (a div 10) = []"
        by (simp add: to_string.simps [of a] to_string.simps [of b])
      then show ?thesis by (simp add: to_string_nonempty)
    next
      case False
      with big_a "1.prems" have eq: "to_string (a div 10) = to_string (b div 10)"
        and dig: "digit_char (a mod 10) = digit_char (b mod 10)"
        by (simp_all add: to_string.simps [of a] to_string.simps [of b])
      from eq big_a have "a div 10 = b div 10" by (intro "1.IH") simp_all
      moreover from dig have "a mod 10 = b mod 10" by (intro digit_char_inj) simp_all
      ultimately show ?thesis by (metis div_mult_mod_eq)
    qed
  qed
qed

lemma frontend_subtree_nodes_chan:
  "list_all (\<lambda>(p, chain). hd (tl p) = to_string chan) (frontend_subtree_nodes env chan)"
  by (simp add: frontend_subtree_nodes_def Let_def slashes_def slash_def slash_idx_def
      segment_name_to_string segments_name segments_literal)

lemma node_of_other_channel:
  assumes ne: "a \<noteq> b" and hd: "hd (tl p) = to_string a"
  shows "tree (snd (init_frontend_subtree env h r b s)) (r @ p) = tree s (r @ p)"
proof (rule node_untouched)
  have "p \<notin> fst ` set (frontend_subtree_nodes env b)"
  proof
    assume "p \<in> fst ` set (frontend_subtree_nodes env b)"
    then obtain chain where "(p, chain) \<in> set (frontend_subtree_nodes env b)" by auto
    with frontend_subtree_nodes_chan [of b env] have "hd (tl p) = to_string b"
      by (auto simp: list_all_iff)
    with hd ne show False by (auto dest: to_string_inj)
  qed
  then show "r @ p \<notin> (\<lambda>(p, chain). r @ p) ` set (frontend_subtree_nodes env b)" by force
qed

section \<open>The gain profile\<close>

lemma profile_node_created:
  assumes ok: "env_ok env"
  shows "tree (snd (init_frontend_subtree env h r chan s))
           (r @ slashes (fe_path d chan) [''gains/all/profile/value'']) = Some (profile_node d)"
proof (cases d)
  case RX_DIRECTION
  show ?thesis unfolding profile_node_def RX_DIRECTION
    using ok by (rule node_at [where i = 25]) (simp_all add: frontend_subtree_nodes_def Let_def fe_path_def)
next
  case TX_DIRECTION
  show ?thesis unfolding profile_node_def TX_DIRECTION
    using ok by (rule node_at [where i = 21]) (simp_all add: frontend_subtree_nodes_def Let_def fe_path_def)
qed

lemma profile_write:
  assumes "tree t p = Some n" "coercer n = Some (Gain_profile_coercer d)" "subscribers n = []"
  shows "property_set env h p (VStr profile) t
         = (Inr (VStr (if has RHODIUM_GP_OPTIONS profile then profile else ''default'')),
            t\<lparr>gain_profile := (gain_profile t)(d := if has RHODIUM_GP_OPTIONS profile then profile else ''default''),
              tree := (tree t)(p \<mapsto> n\<lparr>nvalue := Some (VStr (if has RHODIUM_GP_OPTIONS profile then profile else ''default''))\<rparr>)\<rparr>)"
  using assms by (simp add: property_set_def store_def Let_def)

lemma profile_read:
  assumes "tree t p = Some n" "publisher n = Some (Gain_profile_publisher d)"
  shows "property_get env h p t = (Inr (VStr (gain_profile t d)), t)"
  using assms by (simp add: property_get_def)

lemma profile_node_simps:
  "coercer (profile_node d) = Some (Gain_profile_coercer d)"
  "publisher (profile_node d) = Some (Gain_profile_publisher d)"
  "subscribers (profile_node d) = []"
  "nvalue (profile_node d) = None"
  by (simp_all add: profile_node_def built_def empty_node_def)

text \<open>
  C5. After \<open>_init_frontend_subtree\<close>, in either direction, a write of a profile name
  that is not in \<open>RHODIUM_GP_OPTIONS\<close> to the \<open>gains/all/profile/value\<close> node raises
  no error and returns \<open>default\<close> as the coerced value; \<open>_gain_profile\<close> of the
  direction is \<open>default\<close> afterwards, and a read of the node then returns \<open>default\<close>.
\<close>

theorem C5_gain_profile_normalised:
  assumes ok: "env_ok env" and unknown: "\<not> has RHODIUM_GP_OPTIONS profile"
  shows "fst (property_set env h (r @ slashes (fe_path d chan) [''gains/all/profile/value'']) (VStr profile)
                (snd (init_frontend_subtree env h r chan s))) = Inr (VStr ''default'') \<and>
         gain_profile (snd (property_set env h (r @ slashes (fe_path d chan) [''gains/all/profile/value''])
                (VStr profile) (snd (init_frontend_subtree env h r chan s)))) d = ''default'' \<and>
         fst (property_get env h (r @ slashes (fe_path d chan) [''gains/all/profile/value''])
                (snd (property_set env h (r @ slashes (fe_path d chan) [''gains/all/profile/value''])
                   (VStr profile) (snd (init_frontend_subtree env h r chan s))))) = Inr (VStr ''default'')"
proof -
  let ?p = "r @ slashes (fe_path d chan) [''gains/all/profile/value'']"
  let ?s' = "snd (init_frontend_subtree env h r chan s)"
  have node: "tree ?s' ?p = Some (profile_node d)"
    using ok by (rule profile_node_created)
  note w = profile_write [OF node profile_node_simps(1) profile_node_simps(3), of env h profile]
  have "tree (snd (property_set env h ?p (VStr profile) ?s')) ?p
        = Some ((profile_node d)\<lparr>nvalue := Some (VStr ''default'')\<rparr>)"
    using unknown by (simp add: w)
  then have "property_get env h ?p (snd (property_set env h ?p (VStr profile) ?s'))
        = (Inr (VStr (gain_profile (snd (property_set env h ?p (VStr profile) ?s')) d)),
           snd (property_set env h ?p (VStr profile) ?s'))"
    by (rule profile_read) (simp add: profile_node_simps)
  then show ?thesis using unknown by (simp add: w)
qed

theorem C5_gain_profile_normalised_witness:
  "env_ok example_env \<and> \<not> has RHODIUM_GP_OPTIONS ''performance'' \<and>
   fst (property_set example_env example_hw
          ([] @ slashes (fe_path TX_DIRECTION 0) [''gains/all/profile/value'']) (VStr ''performance'')
          (snd (init_frontend_subtree example_env example_hw [] 0 example_ctrl))) = Inr (VStr ''default'') \<and>
   gain_profile (snd (property_set example_env example_hw
          ([] @ slashes (fe_path TX_DIRECTION 0) [''gains/all/profile/value'']) (VStr ''performance'')
          (snd (init_frontend_subtree example_env example_hw [] 0 example_ctrl)))) TX_DIRECTION = ''default'' \<and>
   fst (property_get example_env example_hw
          ([] @ slashes (fe_path TX_DIRECTION 0) [''gains/all/profile/value''])
          (snd (property_set example_env example_hw
             ([] @ slashes (fe_path TX_DIRECTION 0) [''gains/all/profile/value'']) (VStr ''performance'')
             (snd (init_frontend_subtree example_env example_hw [] 0 example_ctrl))))) = Inr (VStr ''default'')"
proof -
  have unknown: "\<not> has RHODIUM_GP_OPTIONS ''performance''"
    by (simp add: has_def RHODIUM_GP_OPTIONS_def)
  from C5_gain_profile_normalised [OF example_env_ok unknown, of example_hw "[]" TX_DIRECTION 0 example_ctrl]
    example_env_ok unknown
  show ?thesis by blast
qed

text \<open>
  C10. With the subtrees of two channels \<open>a\<close> and \<open>b\<close> wired, in either direction, a
  write of a profile name through the \<open>gains/all/profile/value\<close> node of channel
  \<open>a\<close> returns the coerced name and sets \<open>_gain_profile\<close> of the direction to it; the
  node of channel \<open>b\<close> publishes \<open>_gain_profile\<close> of the direction, before the write
  and after it, so after the write it publishes the coerced name.
\<close>

theorem C10_gain_profile_per_direction:
  assumes ok: "env_ok env"
  shows "(let pa = r @ slashes (fe_path d a) [''gains/all/profile/value''];
              pb = r @ slashes (fe_path d b) [''gains/all/profile/value''];
              wired = snd (init_frontend_subtree env h r b (snd (init_frontend_subtree env h r a s)));
              written = property_set env h pa (VStr profile) wired;
              coerced = (if has RHODIUM_GP_OPTIONS profile then profile else ''default'')
          in fst written = Inr (VStr coerced) \<and>
             gain_profile (snd written) d = coerced \<and>
             property_get env h pb wired = (Inr (VStr (gain_profile wired d)), wired) \<and>
             property_get env h pb (snd written) = (Inr (VStr coerced), snd written))"
proof -
  let ?pa = "r @ slashes (fe_path d a) [''gains/all/profile/value'']"
  let ?pb = "r @ slashes (fe_path d b) [''gains/all/profile/value'']"
  let ?s1 = "snd (init_frontend_subtree env h r a s)"
  let ?s2 = "snd (init_frontend_subtree env h r b ?s1)"
  let ?c = "if has RHODIUM_GP_OPTIONS profile then profile else ''default''"
  have nb: "tree ?s2 ?pb = Some (profile_node d)"
    using ok by (rule profile_node_created)
  have na: "tree ?s2 ?pa = Some (profile_node d)"
  proof (cases "a = b")
    case True
    with nb show ?thesis by simp
  next
    case False
    have "hd (tl (slashes (fe_path d a) [''gains/all/profile/value''])) = to_string a"
      by (simp add: fe_path_def slashes_def slash_def slash_idx_def segments_name
          segment_name_to_string segments_literal)
    with False have "tree ?s2 ?pa = tree ?s1 ?pa"
      by (rule node_of_other_channel)
    also have "\<dots> = Some (profile_node d)"
      using ok by (rule profile_node_created)
    finally show ?thesis .
  qed
  note w = profile_write [OF na profile_node_simps(1) profile_node_simps(3), of env h profile]
  have before: "property_get env h ?pb ?s2 = (Inr (VStr (gain_profile ?s2 d)), ?s2)"
    using nb by (rule profile_read) (simp add: profile_node_simps)
  have "\<exists>n. tree (snd (property_set env h ?pa (VStr profile) ?s2)) ?pb = Some n
            \<and> publisher n = Some (Gain_profile_publisher d)"
    using nb by (simp add: w profile_node_simps)
  then obtain n where "tree (snd (property_set env h ?pa (VStr profile) ?s2)) ?pb = Some n"
    and "publisher n = Some (Gain_profile_publisher d)" by blast
  then have after: "property_get env h ?pb (snd (property_set env h ?pa (VStr profile) ?s2))
      = (Inr (VStr (gain_profile (snd (property_set env h ?pa (VStr profile) ?s2)) d)),
         snd (property_set env h ?pa (VStr profile) ?s2))"
    by (rule profile_read)
  have gp: "gain_profile (snd (property_set env h ?pa (VStr profile) ?s2)) d = ?c"
    by (simp add: w)
  have echo: "fst (property_set env h ?pa (VStr profile) ?s2) = Inr (VStr ?c)"
    by (simp add: w)
  show ?thesis
    unfolding Let_def using echo gp before after by simp
qed

theorem C10_gain_profile_per_direction_witness:
  "env_ok example_env \<and>
   (let pa = [] @ slashes (fe_path RX_DIRECTION 0) [''gains/all/profile/value''];
        pb = [] @ slashes (fe_path RX_DIRECTION 1) [''gains/all/profile/value''];
        wired = snd (init_frontend_subtree example_env example_hw [] 1
                  (snd (init_frontend_subtree example_env example_hw [] 0 example_ctrl)));
        written = property_set example_env example_hw pa (VStr ''default'') wired;
        coerced = (if has RHODIUM_GP_OPTIONS ''default'' then ''default'' else ''default'')
    in fst written = Inr (VStr coerced) \<and>
       gain_profile (snd written) RX_DIRECTION = coerced \<and>
       property_get example_env example_hw pb wired = (Inr (VStr (gain_profile wired RX_DIRECTION)), wired) \<and>
       property_get example_env example_hw pb (snd written) = (Inr (VStr coerced), snd written))"
  using C10_gain_profile_per_direction
    [OF example_env_ok, of "[]" RX_DIRECTION 0 1 example_hw example_ctrl "''default''"]
    example_env_ok
  by blast

section \<open>Published nodes and the remote sensors\<close>

lemma tree_invoke: "tree (snd (invoke env h c arg s)) = tree s"
  by (cases c)
     (auto simp: external_def set_gain_def Let_def radio_ctrl_impl_get_gain_def
           split: option.splits pval.splits sum.splits prod.splits)

lemma get_published:
  assumes "tree t q = Some n" and "publisher n = Some cl"
  shows "property_get env h q t = invoke env h cl None t"
  using assms by (simp add: property_get_def)

lemma tree_after_some:
  "(p, chain) \<in> set nodes \<Longrightarrow>
   \<exists>chain'. (p, chain') \<in> set nodes \<and> tree_after r nodes t (r @ p) = Some (built chain')"
proof (induction nodes arbitrary: t chain)
  case Nil
  then show ?case by simp
next
  case (Cons a nodes)
  obtain p' chain' where a: "a = (p', chain')" by (cases a)
  show ?case
  proof (cases "\<exists>c. (p, c) \<in> set nodes")
    case True
    then obtain c where "(p, c) \<in> set nodes" by blast
    from Cons.IH [OF this, of "t(r @ p' \<mapsto> built chain')"]
    obtain c' where "(p, c') \<in> set nodes"
      and "tree_after r nodes (t(r @ p' \<mapsto> built chain')) (r @ p) = Some (built c')"
      by blast
    then show ?thesis by (intro exI [of _ c']) (simp add: a)
  next
    case False
    with Cons.prems have eq: "p' = p" by (auto simp: a)
    from False have "r @ p \<notin> (\<lambda>(p, chain). r @ p) ` set nodes" by force
    then have "tree_after r nodes (t(r @ p \<mapsto> built chain')) (r @ p) = Some (built chain')"
      by (simp add: tree_after_other)
    then show ?thesis by (intro exI [of _ chain']) (simp add: a eq)
  qed
qed

lemma sensor_nodes_run:
  "exec (map (mpm_sensor_node env h fe trx chan) names) s1
   = (Inr (), s1\<lparr>tree := tree_after []
        (map (\<lambda>name. (slashes fe [''sensors'', name], sensor_chain trx chan name)) names) (tree s1)\<rparr>)"
proof -
  have pl: "list_all (\<lambda>(p, chain). plain chain)
      (map (\<lambda>name. (slashes fe [''sensors'', name], sensor_chain trx chan name)) names)"
    by (simp add: list_all_iff sensor_chain_def plain_def empty_node_def)
  have "map (mpm_sensor_node env h fe trx chan) names
        = map (\<lambda>(p, chain). create env h ([] @ p) chain)
            (map (\<lambda>name. (slashes fe [''sensors'', name], sensor_chain trx chan name)) names)"
    by (simp add: mpm_sensor_node_def sensor_chain_def fun_eq_iff)
  then have "exec (map (mpm_sensor_node env h fe trx chan) names) s1
        = create_all env h []
            (map (\<lambda>name. (slashes fe [''sensors'', name], sensor_chain trx chan name)) names) s1"
    by (simp only: create_all_def)
  also note create_all_plain [OF pl]
  finally show ?thesis .
qed

lemma sensor_node_lookup:
  assumes name: "name \<in> set names"
  shows "\<exists>published \<in> set names.
           slashes fe [''sensors'', published] = slashes fe [''sensors'', name] \<and>
           tree_after []
             (map (\<lambda>name. (slashes fe [''sensors'', name], sensor_chain trx chan name)) names) t
             (slashes fe [''sensors'', name])
           = Some (built (sensor_chain trx chan published))"
proof -
  let ?nodes = "map (\<lambda>name. (slashes fe [''sensors'', name], sensor_chain trx chan name)) names"
  have "(slashes fe [''sensors'', name], sensor_chain trx chan name) \<in> set ?nodes"
    using name by auto
  from tree_after_some [OF this, of "[]" t]
  obtain chain' where mem: "(slashes fe [''sensors'', name], chain') \<in> set ?nodes"
    and look: "tree_after [] ?nodes t (slashes fe [''sensors'', name]) = Some (built chain')"
    by auto
  from mem obtain published where "published \<in> set names"
    and "slashes fe [''sensors'', published] = slashes fe [''sensors'', name]"
    and "chain' = sensor_chain trx chan published"
    by auto
  with look show ?thesis by blast
qed

lemma segment_names_path:
  assumes "segment_name a" and "segment_name b"
    and "slashes fe [''sensors'', a] = slashes fe [''sensors'', b]"
  shows "a = b"
  using assms by (simp add: slashes_def slash_def segments_name)

lemma sensor_read:
  assumes "tree t p = Some (built (sensor_chain trx chan name))"
  shows "property_get env h p t
         = ((case h (get_sensor_request env trx name chan) (calls t) of
               Inl e \<Rightarrow> Inl e
             | Inr (Sensor_map m) \<Rightarrow> Inr (Sensor_map m)
             | Inr other \<Rightarrow> Inl type_error),
            t\<lparr>calls := calls t @ [get_sensor_request env trx name chan]\<rparr>)"
  using assms
  by (simp add: property_get_def sensor_chain_def built_def empty_node_def external_def
      split: sum.splits pval.splits)

lemma init_mpm_sensors_run:
  assumes answer: "h (get_sensors_request env (sensor_trx dir)) (calls s) = Inr (VStrs sensor_list)"
  shows "init_mpm_sensors env h dir chan s
         = (Inr (), s\<lparr>calls := calls s @ [get_sensors_request env (sensor_trx dir)],
                      tree := tree_after []
                        (map (\<lambda>name. (slashes (sensor_fe_path env dir chan) [''sensors'', name],
                                        sensor_chain (sensor_trx dir) chan name)) sensor_list)
                        (tree s)\<rparr>)"
  using answer by (simp add: init_mpm_sensors_def Let_def external_def sensor_nodes_run)

lemma sensor_node_created:
  assumes answer: "h (get_sensors_request env (sensor_trx dir)) (calls s) = Inr (VStrs sensor_list)"
    and name: "sensor_name \<in> set sensor_list"
  shows "\<exists>published \<in> set sensor_list.
           slashes (sensor_fe_path env dir chan) [''sensors'', published]
             = slashes (sensor_fe_path env dir chan) [''sensors'', sensor_name] \<and>
           tree (snd (init_mpm_sensors env h dir chan s))
             (slashes (sensor_fe_path env dir chan) [''sensors'', sensor_name])
           = Some (built (sensor_chain (sensor_trx dir) chan published))"
  using sensor_node_lookup [OF name, of "sensor_fe_path env dir chan" "sensor_trx dir" chan] answer
  by (simp add: init_mpm_sensors_run)

lemma sensor_reads_live:
  assumes answer: "h (get_sensors_request env (sensor_trx dir)) (calls s) = Inr (VStrs sensor_list)"
    and name: "sensor_name \<in> set sensor_list"
  shows "(let wired = snd (init_mpm_sensors env h dir chan s);
              p = slashes (sensor_fe_path env dir chan) [''sensors'', sensor_name];
              request = (\<lambda>published. get_sensor_request env (sensor_trx dir) published chan);
              answer_of = (\<lambda>published history. case h (request published) history of
                              Inl e \<Rightarrow> Inl e
                            | Inr (Sensor_map m) \<Rightarrow> Inr (Sensor_map m)
                            | Inr other \<Rightarrow> Inl type_error)
          in fst (init_mpm_sensors env h dir chan s) = Inr () \<and>
             (\<exists>published \<in> set sensor_list.
                slashes (sensor_fe_path env dir chan) [''sensors'', published] = p \<and>
                (list_all segment_name sensor_list \<longrightarrow> published = sensor_name) \<and>
                map_option nvalue (tree wired p) = Some None \<and>
                map_option publisher (tree wired p)
                  = Some (Some (Mpm_sensor_publisher (sensor_trx dir) published chan)) \<and>
                (\<forall>t. tree t p = tree wired p \<longrightarrow>
                   property_get env h p t
                     = (answer_of published (calls t), t\<lparr>calls := calls t @ [request published]\<rparr>) \<and>
                   property_get env h p (snd (property_get env h p t))
                     = (answer_of published (calls t @ [request published]),
                        t\<lparr>calls := calls t @ [request published, request published]\<rparr>)))) \<and>
         (\<forall>t q n cl. tree t q = Some n \<and> publisher n = Some cl \<longrightarrow>
            property_get env h q t = invoke env h cl None t \<and>
            property_get env h q (snd (property_get env h q t))
              = invoke env h cl None (snd (invoke env h cl None t)))"
proof -
  let ?trx = "sensor_trx dir"
  let ?fe = "sensor_fe_path env dir chan"
  let ?p = "slashes ?fe [''sensors'', sensor_name]"
  let ?wired = "snd (init_mpm_sensors env h dir chan s)"
  from sensor_node_created
    [where h = h and env = env and dir = dir and s = s and chan = chan, OF answer name]
  obtain published where listed: "published \<in> set sensor_list"
    and path: "slashes ?fe [''sensors'', published] = ?p"
    and node: "tree ?wired ?p = Some (built (sensor_chain ?trx chan published))"
    by blast
  let ?request = "get_sensor_request env ?trx published chan"
  have same: "published = sensor_name" if "list_all segment_name sensor_list"
    using that listed name path by (intro segment_names_path) (auto simp: list_all_iff)
  have live: "property_get env h ?p t
          = ((case h ?request (calls t) of
               Inl e \<Rightarrow> Inl e
             | Inr (Sensor_map m) \<Rightarrow> Inr (Sensor_map m)
             | Inr other \<Rightarrow> Inl type_error),
            t\<lparr>calls := calls t @ [?request]\<rparr>)"
    if "tree t ?p = tree ?wired ?p" for t
    using that node by (intro sensor_read) simp
  have twice: "property_get env h ?p (snd (property_get env h ?p t))
          = ((case h ?request (calls t @ [?request]) of
               Inl e \<Rightarrow> Inl e
             | Inr (Sensor_map m) \<Rightarrow> Inr (Sensor_map m)
             | Inr other \<Rightarrow> Inl type_error),
            t\<lparr>calls := calls t @ [?request, ?request]\<rparr>)"
    if t: "tree t ?p = tree ?wired ?p" for t
  proof -
    let ?t1 = "t\<lparr>calls := calls t @ [?request]\<rparr>"
    have "tree ?t1 ?p = tree ?wired ?p"
      using t by simp
    from live [OF this] live [OF t] show ?thesis by simp
  qed
  have generic: "property_get env h q t = invoke env h cl None t \<and>
      property_get env h q (snd (property_get env h q t))
        = invoke env h cl None (snd (invoke env h cl None t))"
    if "tree t q = Some n" and "publisher n = Some cl" for t q n cl
  proof -
    have first: "property_get env h q t = invoke env h cl None t"
      using that by (rule get_published)
    have "tree (snd (invoke env h cl None t)) q = Some n"
      using that(1) by (simp add: tree_invoke)
    then have "property_get env h q (snd (invoke env h cl None t))
        = invoke env h cl None (snd (invoke env h cl None t))"
      using that(2) by (rule get_published)
    with first show ?thesis by simp
  qed
  have shape: "map_option nvalue (tree ?wired ?p) = Some None"
    "map_option publisher (tree ?wired ?p) = Some (Some (Mpm_sensor_publisher ?trx published chan))"
    by (simp_all add: node sensor_chain_def built_def empty_node_def)
  have ok: "fst (init_mpm_sensors env h dir chan s) = Inr ()"
    using answer by (simp add: init_mpm_sensors_run)
  have "\<exists>published \<in> set sensor_list.
          slashes ?fe [''sensors'', published] = ?p \<and>
          (list_all segment_name sensor_list \<longrightarrow> published = sensor_name) \<and>
          map_option nvalue (tree ?wired ?p) = Some None \<and>
          map_option publisher (tree ?wired ?p)
            = Some (Some (Mpm_sensor_publisher ?trx published chan)) \<and>
          (\<forall>t. tree t ?p = tree ?wired ?p \<longrightarrow>
             property_get env h ?p t
               = ((case h (get_sensor_request env ?trx published chan) (calls t) of
                     Inl e \<Rightarrow> Inl e
                   | Inr (Sensor_map m) \<Rightarrow> Inr (Sensor_map m)
                   | Inr other \<Rightarrow> Inl type_error),
                  t\<lparr>calls := calls t @ [get_sensor_request env ?trx published chan]\<rparr>) \<and>
             property_get env h ?p (snd (property_get env h ?p t))
               = ((case h (get_sensor_request env ?trx published chan)
                         (calls t @ [get_sensor_request env ?trx published chan]) of
                     Inl e \<Rightarrow> Inl e
                   | Inr (Sensor_map m) \<Rightarrow> Inr (Sensor_map m)
                   | Inr other \<Rightarrow> Inl type_error),
                  t\<lparr>calls := calls t @ [get_sensor_request env ?trx published chan,
                                        get_sensor_request env ?trx published chan]\<rparr>))"
    using listed path same shape live twice by (intro bexI [of _ published] conjI allI impI) simp_all
  with ok generic show ?thesis
    unfolding Let_def by blast
qed

text \<open>
  C7. When the remote call \<open>request_with_token(_rpc_prefix + "get_sensors", trx)\<close>
  answers a list of names, \<open>_init_mpm_sensors\<close> succeeds and that call is the only one
  it makes: no sensor is read while the nodes are wired. For every name of the list the
  node at \<open>dboards/<slot>/{rx,tx}_frontends/<chan>/sensors/<name>\<close> holds no value and
  has the remote publisher of a listed name with that path (of the name itself when the
  names are path segments). In any state that still holds the node, a read is the one call
  \<open>request_with_token(_rpc_prefix + "get_sensor", trx, name, chan)\<close> and returns its
  answer, and a second read is a second such call, answered on the longer history;
  nothing is stored. For every node with a publisher, a read is an invocation of the
  publisher, and two reads in a row are two invocations in a row.
\<close>

theorem C7_publisher_reads_are_live:
  assumes answer: "h (Call ''request_with_token''
                        [VStr (rpc_prefix env @ ''get_sensors''),
                         VStr (if dir = RX_DIRECTION then ''RX'' else ''TX'')]) (calls s)
                   = Inr (VStrs sensor_list)"
    and name: "sensor_name \<in> set sensor_list"
  shows "(let wired = snd (init_mpm_sensors env h dir chan s);
              sensor_path = (\<lambda>name.
                 slashes (slash_idx (slashes (segments ''dboards'')
                            [radio_slot env,
                             if dir = RX_DIRECTION then ''rx_frontends'' else ''tx_frontends''])
                          chan)
                   [''sensors'', name]);
              p = sensor_path sensor_name;
              request = (\<lambda>published.
                 Call ''request_with_token''
                   [VStr (rpc_prefix env @ ''get_sensor''),
                    VStr (if dir = RX_DIRECTION then ''RX'' else ''TX''),
                    VStr published, Index chan]);
              answer_of = (\<lambda>published history. case h (request published) history of
                              Inl e \<Rightarrow> Inl e
                            | Inr (Sensor_map m) \<Rightarrow> Inr (Sensor_map m)
                            | Inr other \<Rightarrow> Inl type_error)
          in fst (init_mpm_sensors env h dir chan s) = Inr () \<and>
             calls wired
               = calls s @ [Call ''request_with_token''
                              [VStr (rpc_prefix env @ ''get_sensors''),
                               VStr (if dir = RX_DIRECTION then ''RX'' else ''TX'')]] \<and>
             (\<exists>published \<in> set sensor_list.
                sensor_path published = p \<and>
                (list_all segment_name sensor_list \<longrightarrow> published = sensor_name) \<and>
                map_option nvalue (tree wired p) = Some None \<and>
                map_option publisher (tree wired p)
                  = Some (Some (Mpm_sensor_publisher (if dir = RX_DIRECTION then ''RX'' else ''TX'')
                                  published chan)) \<and>
                (\<forall>t. tree t p = tree wired p \<longrightarrow>
                   property_get env h p t
                     = (answer_of published (calls t), t\<lparr>calls := calls t @ [request published]\<rparr>) \<and>
                   property_get env h p (snd (property_get env h p t))
                     = (answer_of published (calls t @ [request published]),
                        t\<lparr>calls := calls t @ [request published, request published]\<rparr>)))) \<and>
         (\<forall>t q n cl. tree t q = Some n \<and> publisher n = Some cl \<longrightarrow>
            property_get env h q t = invoke env h cl None t \<and>
            property_get env h q (snd (property_get env h q t))
              = invoke env h cl None (snd (invoke env h cl None t)))"
proof -
  have listed: "h (get_sensors_request env (sensor_trx dir)) (calls s) = Inr (VStrs sensor_list)"
    unfolding get_sensors_request_def sensor_trx_def by (rule answer)
  have wired: "calls (snd (init_mpm_sensors env h dir chan s))
      = calls s @ [Call ''request_with_token''
                     [VStr (rpc_prefix env @ ''get_sensors''),
                      VStr (if dir = RX_DIRECTION then ''RX'' else ''TX'')]]"
    using listed by (simp add: init_mpm_sensors_run get_sensors_request_def sensor_trx_def)
  from sensor_reads_live [where h = h and env = env and dir = dir and s = s and chan = chan,
      OF listed name] wired
  show ?thesis
    unfolding Let_def get_sensor_request_def sensor_trx_def sensor_fe_path_def
    by blast
qed

theorem C7_publisher_reads_are_live_witness:
  "example_hw (Call ''request_with_token''
                 [VStr (rpc_prefix example_env @ ''get_sensors''),
                  VStr (if RX_DIRECTION = RX_DIRECTION then ''RX'' else ''TX'')]) (calls example_ctrl)
     = Inr (VStrs [''lo_locked'', ''temperature'']) \<and>
   ''temperature'' \<in> set [''lo_locked'', ''temperature''] \<and>
   fst (init_mpm_sensors example_env example_hw RX_DIRECTION 0 example_ctrl) = Inr () \<and>
   calls (snd (init_mpm_sensors example_env example_hw RX_DIRECTION 0 example_ctrl))
     = [Call ''request_with_token'' [VStr ''db_0_get_sensors'', VStr ''RX'']] \<and>
   calls (snd (property_get example_env example_hw
                 [''dboards'', ''A'', ''rx_frontends'', ''0'', ''sensors'', ''temperature'']
                 (snd (property_get example_env example_hw
                         [''dboards'', ''A'', ''rx_frontends'', ''0'', ''sensors'', ''temperature'']
                         (snd (init_mpm_sensors example_env example_hw RX_DIRECTION 0 example_ctrl))))))
     = [Call ''request_with_token'' [VStr ''db_0_get_sensors'', VStr ''RX''],
        Call ''request_with_token'' [VStr ''db_0_get_sensor'', VStr ''RX'', VStr ''temperature'', Index 0],
        Call ''request_with_token'' [VStr ''db_0_get_sensor'', VStr ''RX'', VStr ''temperature'', Index 0]]"
proof -
  let ?wired = "snd (init_mpm_sensors example_env example_hw RX_DIRECTION 0 example_ctrl)"
  let ?fe = "slash_idx (slashes (segments ''dboards'')
               [radio_slot example_env,
                if RX_DIRECTION = RX_DIRECTION then ''rx_frontends'' else ''tx_frontends'']) 0"
  let ?p = "slashes ?fe [''sensors'', ''temperature'']"
  let ?request = "\<lambda>published. Call ''request_with_token''
      [VStr (rpc_prefix example_env @ ''get_sensor''),
       VStr (if RX_DIRECTION = RX_DIRECTION then ''RX'' else ''TX''), VStr published, Index 0]"
  have answer: "example_hw (Call ''request_with_token''
                 [VStr (rpc_prefix example_env @ ''get_sensors''),
                  VStr (if RX_DIRECTION = RX_DIRECTION then ''RX'' else ''TX'')]) (calls example_ctrl)
      = Inr (VStrs [''lo_locked'', ''temperature''])"
    by (simp add: example_hw_def get_sensors_request_def sensor_trx_def)
  have names: "list_all segment_name [''lo_locked'', ''temperature'']"
    by (simp add: segment_name_def)
  have name: "''temperature'' \<in> set [''lo_locked'', ''temperature'']"
    by simp
  note live = C7_publisher_reads_are_live
    [where h = example_hw and env = example_env and dir = RX_DIRECTION and s = example_ctrl
       and chan = 0, OF answer name, unfolded Let_def]
  from live have ok: "fst (init_mpm_sensors example_env example_hw RX_DIRECTION 0 example_ctrl) = Inr ()"
    by blast
  from live have wired: "calls ?wired
      = calls example_ctrl @ [Call ''request_with_token''
          [VStr (rpc_prefix example_env @ ''get_sensors''),
           VStr (if RX_DIRECTION = RX_DIRECTION then ''RX'' else ''TX'')]]"
    by blast
  from live names obtain published where "published = ''temperature''"
    and "\<forall>t. tree t ?p = tree ?wired ?p \<longrightarrow>
      property_get example_env example_hw ?p (snd (property_get example_env example_hw ?p t))
      = ((case example_hw (?request published) (calls t @ [?request published]) of
            Inl e \<Rightarrow> Inl e
          | Inr (Sensor_map m) \<Rightarrow> Inr (Sensor_map m)
          | Inr other \<Rightarrow> Inl type_error),
         t\<lparr>calls := calls t @ [?request published, ?request published]\<rparr>)"
    by blast
  then have "property_get example_env example_hw ?p (snd (property_get example_env example_hw ?p ?wired))
      = ((case example_hw (?request ''temperature'') (calls ?wired @ [?request ''temperature'']) of
            Inl e \<Rightarrow> Inl e
          | Inr (Sensor_map m) \<Rightarrow> Inr (Sensor_map m)
          | Inr other \<Rightarrow> Inl type_error),
         ?wired\<lparr>calls := calls ?wired @ [?request ''temperature'', ?request ''temperature'']\<rparr>)"
    by blast
  then have "calls (snd (property_get example_env example_hw ?p
                 (snd (property_get example_env example_hw ?p ?wired))))
      = calls ?wired @ [?request ''temperature'', ?request ''temperature'']"
    by simp
  moreover have "?p = [''dboards'', ''A'', ''rx_frontends'', ''0'', ''sensors'', ''temperature'']"
    by (simp add: example_env_def path_simps to_string_0)
  moreover have "calls example_ctrl = []" "rpc_prefix example_env = ''db_0_''"
    by (simp_all add: example_ctrl_def example_env_def)
  ultimately show ?thesis
    using answer name ok wired by simp
qed

section \<open>Read-only nodes\<close>

lemma read_only_nodes:
  "list_all (\<lambda>(p, chain). \<forall>msg. Add_coerced_subscriber (Throw msg) \<in> set chain \<longrightarrow>
       coercer (built chain) = None \<and> subscribers (built chain) = [Throw msg])
     (frontend_subtree_nodes env chan)"
  by (simp add: frontend_subtree_nodes_def Let_def built_def empty_node_def)

lemma rejected_write:
  assumes "tree t q = Some n" "coercer n = None" "subscribers n = [Throw msg]"
  shows "property_set env h q v t = (Inl (runtime_error msg), store q v t)"
  using assms by (simp add: property_set_def)

lemma stored_value:
  assumes "tree t q = Some n"
  shows "map_option nvalue (tree (store q v t) q) = Some (Some v)"
  using assms by (simp add: store_def)

text \<open>
  C1. For every node that \<open>_init_frontend_subtree\<close> creates with a throwing coerced
  subscriber, and for every sensor node that \<open>_init_mpm_sensors\<close> creates, a write fails
  with the \<open>uhd::runtime_error\<close> of that subscriber, and the state it leaves is the state
  with the written value stored in the node: the engine stores before it notifies.
\<close>

theorem C1_read_only_write_is_stored:
  assumes ok: "env_ok env"
    and node: "(p, chain) \<in> set (frontend_subtree_nodes env chan)"
    and ro: "Add_coerced_subscriber (Throw msg) \<in> set chain"
  shows "property_set env h (r @ p) v (snd (init_frontend_subtree env h r chan s))
           = (Inl (runtime_error msg), store (r @ p) v (snd (init_frontend_subtree env h r chan s))) \<and>
         map_option nvalue (tree (store (r @ p) v (snd (init_frontend_subtree env h r chan s))) (r @ p))
           = Some (Some v) \<and>
         (\<forall>dir sensor_chan s0 sensor_list sensor_name.
            h (get_sensors_request env (sensor_trx dir)) (calls s0) = Inr (VStrs sensor_list) \<and>
            sensor_name \<in> set sensor_list \<longrightarrow>
            property_set env h (slashes (sensor_fe_path env dir sensor_chan) [''sensors'', sensor_name]) v
                (snd (init_mpm_sensors env h dir sensor_chan s0))
              = (Inl (runtime_error ''Attempting to write to sensor!''),
                 store (slashes (sensor_fe_path env dir sensor_chan) [''sensors'', sensor_name]) v
                   (snd (init_mpm_sensors env h dir sensor_chan s0))) \<and>
            map_option nvalue
              (tree (store (slashes (sensor_fe_path env dir sensor_chan) [''sensors'', sensor_name]) v
                       (snd (init_mpm_sensors env h dir sensor_chan s0)))
                 (slashes (sensor_fe_path env dir sensor_chan) [''sensors'', sensor_name]))
              = Some (Some v))"
proof -
  let ?s' = "snd (init_frontend_subtree env h r chan s)"
  have n: "tree ?s' (r @ p) = Some (built chain)"
    using ok node by (rule node_created)
  from read_only_nodes [of env chan] node ro
  have "coercer (built chain) = None" and "subscribers (built chain) = [Throw msg]"
    by (auto simp: list_all_iff)
  with n have frontend: "property_set env h (r @ p) v ?s' = (Inl (runtime_error msg), store (r @ p) v ?s')"
    by (rule rejected_write)
  from n have frontend_stored: "map_option nvalue (tree (store (r @ p) v ?s') (r @ p)) = Some (Some v)"
    by (rule stored_value)
  have sensors: "property_set env h (slashes (sensor_fe_path env dir sensor_chan) [''sensors'', sensor_name]) v
                (snd (init_mpm_sensors env h dir sensor_chan s0))
              = (Inl (runtime_error ''Attempting to write to sensor!''),
                 store (slashes (sensor_fe_path env dir sensor_chan) [''sensors'', sensor_name]) v
                   (snd (init_mpm_sensors env h dir sensor_chan s0))) \<and>
            map_option nvalue
              (tree (store (slashes (sensor_fe_path env dir sensor_chan) [''sensors'', sensor_name]) v
                       (snd (init_mpm_sensors env h dir sensor_chan s0)))
                 (slashes (sensor_fe_path env dir sensor_chan) [''sensors'', sensor_name]))
              = Some (Some v)"
    if answer: "h (get_sensors_request env (sensor_trx dir)) (calls s0) = Inr (VStrs sensor_list)"
      and name: "sensor_name \<in> set sensor_list"
    for dir sensor_chan s0 sensor_list sensor_name
  proof -
    let ?q = "slashes (sensor_fe_path env dir sensor_chan) [''sensors'', sensor_name]"
    let ?w = "snd (init_mpm_sensors env h dir sensor_chan s0)"
    from sensor_node_created
      [where h = h and env = env and dir = dir and s = s0 and chan = sensor_chan, OF answer name]
    obtain published where sn: "tree ?w ?q = Some (built (sensor_chain (sensor_trx dir) sensor_chan published))"
      by blast
    have "coercer (built (sensor_chain (sensor_trx dir) sensor_chan published)) = None"
      and "subscribers (built (sensor_chain (sensor_trx dir) sensor_chan published))
           = [Throw ''Attempting to write to sensor!'']"
      by (simp_all add: sensor_chain_def built_def empty_node_def)
    with sn have "property_set env h ?q v ?w
        = (Inl (runtime_error ''Attempting to write to sensor!''), store ?q v ?w)"
      by (rule rejected_write)
    moreover from sn have "map_option nvalue (tree (store ?q v ?w) ?q) = Some (Some v)"
      by (rule stored_value)
    ultimately show ?thesis by simp
  qed
  from frontend frontend_stored sensors show ?thesis by blast
qed

theorem C1_read_only_write_is_stored_witness:
  "env_ok example_env \<and>
   (slashes (fe_path TX_DIRECTION 0) [''antenna'', ''options''],
    [Set_value (VStrs [RHODIUM_DEFAULT_TX_ANTENNA]),
     Add_coerced_subscriber (Throw ''Attempting to update antenna options!'')])
     \<in> set (frontend_subtree_nodes example_env 0) \<and>
   property_set example_env example_hw ([] @ slashes (fe_path TX_DIRECTION 0) [''antenna'', ''options''])
       (VStrs [''RX2'']) (snd (init_frontend_subtree example_env example_hw [] 0 example_ctrl))
     = (Inl (runtime_error ''Attempting to update antenna options!''),
        store ([] @ slashes (fe_path TX_DIRECTION 0) [''antenna'', ''options'']) (VStrs [''RX2''])
          (snd (init_frontend_subtree example_env example_hw [] 0 example_ctrl))) \<and>
   map_option nvalue
     (tree (store ([] @ slashes (fe_path TX_DIRECTION 0) [''antenna'', ''options'']) (VStrs [''RX2''])
              (snd (init_frontend_subtree example_env example_hw [] 0 example_ctrl)))
        ([] @ slashes (fe_path TX_DIRECTION 0) [''antenna'', ''options'']))
     = Some (Some (VStrs [''RX2'']))"
proof -
  have "frontend_subtree_nodes example_env 0 ! 7
        = (slashes (fe_path TX_DIRECTION 0) [''antenna'', ''options''],
           [Set_value (VStrs [RHODIUM_DEFAULT_TX_ANTENNA]),
            Add_coerced_subscriber (Throw ''Attempting to update antenna options!'')])"
    by (simp add: frontend_subtree_nodes_def Let_def fe_path_def)
  moreover have "frontend_subtree_nodes example_env 0 ! 7 \<in> set (frontend_subtree_nodes example_env 0)"
    by (rule nth_mem) (simp add: frontend_subtree_nodes_length)
  ultimately have node:
    "(slashes (fe_path TX_DIRECTION 0) [''antenna'', ''options''],
      [Set_value (VStrs [RHODIUM_DEFAULT_TX_ANTENNA]),
       Add_coerced_subscriber (Throw ''Attempting to update antenna options!'')])
     \<in> set (frontend_subtree_nodes example_env 0)"
    by simp
  have ro: "Add_coerced_subscriber (Throw ''Attempting to update antenna options!'')
        \<in> set [Set_value (VStrs [RHODIUM_DEFAULT_TX_ANTENNA]),
                 Add_coerced_subscriber (Throw ''Attempting to update antenna options!'')]"
    by simp
  from C1_read_only_write_is_stored
    [OF example_env_ok node ro, of example_hw "[]" "VStrs [''RX2'']" example_ctrl]
    example_env_ok node
  show ?thesis by blast
qed

lemma tx_antenna_options_node:
  "tree (snd (init_frontend_subtree example_env example_hw [] 0 example_ctrl))
     [''tx_frontends'', ''0'', ''antenna'', ''options'']
   = Some \<lparr>nvalue = Some (VStrs [''TX/RX'']), coercer = None, publisher = None,
           subscribers = [Throw ''Attempting to update antenna options!'']\<rparr>"
proof -
  have "tree (snd (init_frontend_subtree example_env example_hw [] 0 example_ctrl))
          ([] @ slashes (fe_path TX_DIRECTION 0) [''antenna'', ''options''])
        = Some (built [Set_value (VStrs [RHODIUM_DEFAULT_TX_ANTENNA]),
                       Add_coerced_subscriber (Throw ''Attempting to update antenna options!'')])"
    using example_env_ok
    by (rule node_at [where i = 7]) (simp_all add: frontend_subtree_nodes_def Let_def fe_path_def)
  then show ?thesis
    by (simp add: fe_path_def path_simps to_string_0 built_def empty_node_def
        RHODIUM_DEFAULT_TX_ANTENNA_def)
qed

text \<open>
  C1, as stated, fails: a write of \<open>["RX2"]\<close> to the TX antenna options node fails with
  the error of the subscriber, and the stored value, \<open>["TX/RX"]\<close> before the write, is
  \<open>["RX2"]\<close> after it.
\<close>

theorem C1_counterexample:
  "fst (property_set example_env example_hw [''tx_frontends'', ''0'', ''antenna'', ''options'']
          (VStrs [''RX2'']) (snd (init_frontend_subtree example_env example_hw [] 0 example_ctrl)))
     = Inl (runtime_error ''Attempting to update antenna options!'') \<and>
   map_option nvalue
     (tree (snd (init_frontend_subtree example_env example_hw [] 0 example_ctrl))
        [''tx_frontends'', ''0'', ''antenna'', ''options''])
     = Some (Some (VStrs [''TX/RX''])) \<and>
   map_option nvalue
     (tree (snd (property_set example_env example_hw [''tx_frontends'', ''0'', ''antenna'', ''options'']
                   (VStrs [''RX2'']) (snd (init_frontend_subtree example_env example_hw [] 0 example_ctrl))))
        [''tx_frontends'', ''0'', ''antenna'', ''options''])
     = Some (Some (VStrs [''RX2'']))"
  by (simp add: property_set_def store_def tx_antenna_options_node)

section \<open>\<open>_init_defaults\<close>: the loops and the samples per packet\<close>

lemma rx_defaults_success:
  assumes "rx_defaults h chan s = (Inr (), s1)"
  shows "s1 = s\<lparr>stored_gain := (stored_gain s)((RX_DIRECTION, chan) \<mapsto> RHODIUM_DEFAULT_INVALID_GAIN),
                calls := calls s @ rx_default_calls chan\<rparr>"
  using assms
  by (auto simp: rx_defaults_def rx_default_calls_def ext_def discard_def external_def
        radio_ctrl_impl_set_gain_def base_set_gain_name_def
      split: sum.splits)

lemma tx_defaults_success:
  assumes "tx_defaults h chan s = (Inr (), s1)"
  shows "s1 = s\<lparr>stored_gain := (stored_gain s)((TX_DIRECTION, chan) \<mapsto> RHODIUM_DEFAULT_INVALID_GAIN),
                calls := calls s @ tx_default_calls chan\<rparr>"
  using assms
  by (auto simp: tx_defaults_def tx_default_calls_def ext_def discard_def external_def
        radio_ctrl_impl_set_gain_def base_set_gain_name_def
      split: sum.splits)

lemma gains_after_step:
  "first < n \<Longrightarrow>
   gains_after d (Suc first) n (g((d, first) \<mapsto> RHODIUM_DEFAULT_INVALID_GAIN)) = gains_after d first n g"
  by (auto simp: gains_after_def fun_eq_iff)

lemma gains_after_empty: "\<not> first < n \<Longrightarrow> gains_after d first n g = g"
  by (auto simp: gains_after_def fun_eq_iff)

lemma for_chan_success:
  assumes body: "\<And>chan s s1. body chan s = (Inr (), s1) \<Longrightarrow>
            s1 = s\<lparr>stored_gain := (stored_gain s)((d, chan) \<mapsto> RHODIUM_DEFAULT_INVALID_GAIN),
                   calls := calls s @ f chan\<rparr>"
    and run: "for_chan first n body s = (Inr (), s')"
  shows "s' = s\<lparr>stored_gain := gains_after d first n (stored_gain s),
                calls := calls s @ concat (map f [first..<n])\<rparr>"
  using run
proof (induction "n - first" arbitrary: first s)
  case 0
  then have "\<not> first < n" by simp
  with "0.prems" show ?case by (simp add: for_chan.simps [of first] gains_after_empty)
next
  case (Suc k)
  then have lt: "first < n" by simp
  with Suc.prems obtain s1 where b: "body first s = (Inr (), s1)"
    and rest: "for_chan (Suc first) n body s1 = (Inr (), s')"
    by (auto simp: for_chan.simps [of first] split: prod.splits sum.splits)
  from body [OF b]
  have s1: "s1 = s\<lparr>stored_gain := (stored_gain s)((d, first) \<mapsto> RHODIUM_DEFAULT_INVALID_GAIN),
                   calls := calls s @ f first\<rparr>" .
  from Suc.hyps(2) have "k = n - Suc first" by simp
  from Suc.hyps(1) [OF this rest]
  have "s' = s1\<lparr>stored_gain := gains_after d (Suc first) n (stored_gain s1),
                calls := calls s1 @ concat (map f [Suc first..<n])\<rparr>" .
  with lt show ?case
    by (simp add: s1 gains_after_step upt_conv_Cons)
qed

lemma update_default_spp_plain:
  assumes mtu: "tree s (segments ''mtu/recv'') = Some (value_node (VSize mtu_recv))"
    and spp: "tree s (slash (spp_arg_path env) ''value'') = Some (value_node old_spp)"
  shows "update_default_spp env h s
         = (Inr (), s\<lparr>tree := (tree s)(slash (spp_arg_path env) ''value''
                \<mapsto> value_node (VInt (ucast (default_spp mtu_recv (max_if_hdr_words64 env)))))\<rparr>)"
  using assms
  by (simp add: update_default_spp_def property_get_def property_set_def discard_def store_def
      value_node_def)

lemma init_defaults_loops:
  assumes run: "fst (init_defaults env h s) = Inr ()"
  shows "update_default_spp env h
           (s\<lparr>stored_gain := gains_after TX_DIRECTION 0 (num_tx_chans env)
                               (gains_after RX_DIRECTION 0 (num_rx_chans env) (stored_gain s)),
              calls := calls s @ concat (map rx_default_calls [0..<num_rx_chans env])
                               @ concat (map tx_default_calls [0..<num_tx_chans env])\<rparr>)
         = (Inr (), snd (init_defaults env h s))"
proof -
  from run obtain s' where r: "init_defaults env h s = (Inr (), s')"
    by (cases "init_defaults env h s") auto
  then obtain s1 s2 where rx: "for_chan 0 (num_rx_chans env) (rx_defaults h) s = (Inr (), s1)"
    and tx: "for_chan 0 (num_tx_chans env) (tx_defaults h) s1 = (Inr (), s2)"
    and up: "update_default_spp env h s2 = (Inr (), s')"
    by (auto simp: init_defaults_def split: prod.splits sum.splits)
  have s1: "s1 = s\<lparr>stored_gain := gains_after RX_DIRECTION 0 (num_rx_chans env) (stored_gain s),
                   calls := calls s @ concat (map rx_default_calls [0..<num_rx_chans env])\<rparr>"
    using rx_defaults_success rx by (rule for_chan_success)
  have s2: "s2 = s1\<lparr>stored_gain := gains_after TX_DIRECTION 0 (num_tx_chans env) (stored_gain s1),
                   calls := calls s1 @ concat (map tx_default_calls [0..<num_tx_chans env])\<rparr>"
    using tx_defaults_success tx by (rule for_chan_success)
  from up show ?thesis by (simp add: r s1 s2)
qed

lemma init_defaults_success:
  assumes mtu: "tree s (segments ''mtu/recv'') = Some (value_node (VSize mtu_recv))"
    and spp: "tree s (slash (spp_arg_path env) ''value'') = Some (value_node old_spp)"
    and run: "fst (init_defaults env h s) = Inr ()"
  shows "snd (init_defaults env h s)
         = s\<lparr>stored_gain := gains_after TX_DIRECTION 0 (num_tx_chans env)
                               (gains_after RX_DIRECTION 0 (num_rx_chans env) (stored_gain s)),
             calls := calls s @ concat (map rx_default_calls [0..<num_rx_chans env])
                              @ concat (map tx_default_calls [0..<num_tx_chans env]),
             tree := (tree s)(slash (spp_arg_path env) ''value''
                \<mapsto> value_node (VInt (ucast (default_spp mtu_recv (max_if_hdr_words64 env)))))\<rparr>"
proof -
  let ?s2 = "s\<lparr>stored_gain := gains_after TX_DIRECTION 0 (num_tx_chans env)
                               (gains_after RX_DIRECTION 0 (num_rx_chans env) (stored_gain s)),
              calls := calls s @ concat (map rx_default_calls [0..<num_rx_chans env])
                               @ concat (map tx_default_calls [0..<num_tx_chans env])\<rparr>"
  have "tree ?s2 (segments ''mtu/recv'') = Some (value_node (VSize mtu_recv))"
    and "tree ?s2 (slash (spp_arg_path env) ''value'') = Some (value_node old_spp)"
    using mtu spp by simp_all
  from update_default_spp_plain [OF this, of h] init_defaults_loops [OF run]
  show ?thesis by simp
qed

lemma invoke_calls: "\<exists>w. calls (snd (invoke env h c arg s)) = calls s @ w"
  by (cases c)
     (auto simp: external_def set_gain_def Let_def radio_ctrl_impl_get_gain_def
           split: option.splits pval.splits sum.splits prod.splits)

lemma notify_calls: "\<exists>w. calls (snd (notify env h cs v s)) = calls s @ w"
proof (induction cs arbitrary: s)
  case Nil
  then show ?case by simp
next
  case (Cons c cs)
  obtain res s1 where i: "invoke env h c (Some v) s = (res, s1)"
    by (cases "invoke env h c (Some v) s")
  from invoke_calls [of env h c "Some v" s] obtain w1 where w1: "calls s1 = calls s @ w1"
    by (auto simp: i)
  show ?case
  proof (cases res)
    case (Inl e)
    with w1 show ?thesis by (simp add: i)
  next
    case (Inr u)
    from Cons.IH [of s1] obtain w2 where "calls (snd (notify env h cs v s1)) = calls s1 @ w2"
      by blast
    with w1 Inr show ?thesis by (simp add: i)
  qed
qed

lemma property_get_calls: "\<exists>w. calls (snd (property_get env h p s)) = calls s @ w"
  using invoke_calls [of env h _ None s]
  by (auto simp: property_get_def split: option.splits)

lemma store_calls: "calls (store p v s) = calls s"
  by (simp add: store_def split: option.splits)

lemma property_set_calls: "\<exists>w. calls (snd (property_set env h p v s)) = calls s @ w"
proof (cases "tree s p")
  case None
  then show ?thesis by (simp add: property_set_def)
next
  case (Some n)
  obtain res s1 where c: "(case coercer n of None \<Rightarrow> (Inr v, s) | Some c \<Rightarrow> invoke env h c (Some v) s)
      = (res, s1)"
    by (cases "case coercer n of None \<Rightarrow> (Inr v, s) | Some c \<Rightarrow> invoke env h c (Some v) s")
  have "\<exists>w. calls s1 = calls s @ w"
    using c invoke_calls [of env h _ "Some v" s] by (cases "coercer n") (auto, metis snd_conv)
  then obtain w1 where w1: "calls s1 = calls s @ w1" by blast
  show ?thesis
  proof (cases res)
    case (Inl e)
    with w1 Some c show ?thesis by (simp add: property_set_def)
  next
    case (Inr cv)
    from notify_calls [of env h "subscribers n" cv "store p cv s1"]
    obtain w2 where "calls (snd (notify env h (subscribers n) cv (store p cv s1))) = calls s1 @ w2"
      by (auto simp: store_calls)
    with w1 Some c Inr show ?thesis
      by (auto simp: property_set_def split: prod.splits sum.splits)
  qed
qed

lemma update_default_spp_calls: "\<exists>w. calls (snd (update_default_spp env h s)) = calls s @ w"
proof -
  obtain res s1 where g: "property_get env h (segments ''mtu/recv'') s = (res, s1)"
    by (cases "property_get env h (segments ''mtu/recv'') s")
  from property_get_calls [of env h "segments ''mtu/recv''" s] obtain w1
    where w1: "calls s1 = calls s @ w1" by (auto simp: g)
  have set: "\<exists>w. calls s2 = calls s @ w" if "property_set env h p v s1 = (res2, s2)" for p v res2 s2
    using property_set_calls [of env h p v s1] w1 that by auto
  show ?thesis
    using w1 set
    by (auto simp: update_default_spp_def g discard_def split: sum.splits pval.splits prod.splits)
qed

lemma spp_exact:
  fixes mtu hdr :: "64 word"
  assumes le: "8 * unat hdr \<le> unat mtu"
    and fits: "(unat mtu - 8 * unat hdr) div 4 < 2 ^ 31"
  shows "sint (ucast (default_spp mtu hdr) :: 32 word) = (int (unat mtu) - 8 * int (unat hdr)) div (2 * 2)"
proof -
  have hb: "unat (max_bytes_header hdr) = 8 * unat hdr"
  proof -
    have "unat mtu < 2 ^ 64" using unsigned_less [of mtu] by simp
    with le have "unat hdr * unat (8 :: 64 word) < 2 ^ LENGTH(64)" by simp
    then have "unat (hdr * 8) = unat hdr * unat (8 :: 64 word)" by (simp only: unat_mult_lem [THEN iffD1])
    then show ?thesis by (simp add: max_bytes_header_def)
  qed
  have sub: "unat (mtu - max_bytes_header hdr) = unat mtu - 8 * unat hdr"
    using le hb by (simp add: unat_sub word_le_nat_alt)
  have d: "unat (default_spp mtu hdr) = (unat mtu - 8 * unat hdr) div 4"
    by (simp add: default_spp_def unat_div sub)
  have small: "(unat mtu - 8 * unat hdr) div 4 < 2 ^ 32"
    using fits by simp
  have u: "unat (ucast (default_spp mtu hdr) :: 32 word) = (unat mtu - 8 * unat hdr) div 4"
    using small by (simp add: unsigned_ucast_eq d take_bit_nat_eq_self_iff)
  then have ui: "uint (ucast (default_spp mtu hdr) :: 32 word) = int ((unat mtu - 8 * unat hdr) div 4)"
    by (metis uint_nat)
  have "sint (ucast (default_spp mtu hdr) :: 32 word)
        = signed_take_bit 31 (int ((unat mtu - 8 * unat hdr) div 4))"
    by (simp add: sint_uint ui)
  also have "\<dots> = int ((unat mtu - 8 * unat hdr) div 4)"
    using fits by (intro signed_take_bit_int_eq_self) simp_all
  also have "\<dots> = (int (unat mtu) - 8 * int (unat hdr)) div (2 * 2)"
    using le by (simp add: zdiv_int of_nat_diff)
  finally show ?thesis .
qed


lemma example_defaults_run: "fst (init_defaults example_env example_hw example_ctrl) = Inr ()"
  by (simp add: init_defaults_def for_chan.simps rx_defaults_def tx_defaults_def ext_def discard_def
      external_def example_hw_def example_env_def example_ctrl_def radio_ctrl_impl_set_gain_def
      update_default_spp_def property_get_def property_set_def store_def value_node_def
      get_sensors_request_def segments_def slash_def)

lemma example_mtu_node:
  "tree example_ctrl (segments ''mtu/recv'') = Some (value_node (VSize 8000))"
  by (simp add: example_ctrl_def segments_def)

lemma example_spp_node:
  "tree example_ctrl (slash (spp_arg_path example_env) ''value'') = Some (value_node (VInt 364))"
  by (simp add: example_ctrl_def example_env_def slash_def segments_def)

text \<open>
  C2. When \<open>_init_defaults\<close> returns, the calls it made start with, for each RX channel
  in turn, the RX frequency, gain, antenna and bandwidth setters, then for each TX channel
  in turn the TX frequency, gain and antenna setters followed by
  \<open>radio_ctrl_impl::set_rx_bandwidth(RHODIUM_DEFAULT_BANDWIDTH, chan)\<close>; no call of the
  two loops is a TX bandwidth setter. What follows are the calls of the closures of the
  \<open>mtu/recv\<close> and \<open>spp\<close> nodes: none when the two nodes hold plain values.
\<close>

theorem C2_tx_defaults_call_rx_bandwidth:
  assumes run: "fst (init_defaults env h s) = Inr ()"
  shows "(let rx_loop = concat (map (\<lambda>chan.
                 [Call ''radio_ctrl_impl::set_rx_frequency'' [VDouble RHODIUM_DEFAULT_FREQ, Index chan],
                  Call ''radio_ctrl_impl::set_rx_gain'' [VDouble RHODIUM_DEFAULT_INVALID_GAIN, Index chan],
                  Call ''radio_ctrl_impl::set_rx_antenna'' [VStr RHODIUM_DEFAULT_RX_ANTENNA, Index chan],
                  Call ''radio_ctrl_impl::set_rx_bandwidth'' [VDouble RHODIUM_DEFAULT_BANDWIDTH, Index chan]]) [0..<num_rx_chans env]);
              tx_loop = concat (map (\<lambda>chan.
                 [Call ''radio_ctrl_impl::set_tx_frequency'' [VDouble RHODIUM_DEFAULT_FREQ, Index chan],
                  Call ''radio_ctrl_impl::set_tx_gain'' [VDouble RHODIUM_DEFAULT_INVALID_GAIN, Index chan],
                  Call ''radio_ctrl_impl::set_tx_antenna'' [VStr RHODIUM_DEFAULT_TX_ANTENNA, Index chan],
                  Call ''radio_ctrl_impl::set_rx_bandwidth'' [VDouble RHODIUM_DEFAULT_BANDWIDTH, Index chan]]) [0..<num_tx_chans env])
          in (\<exists>rest. calls (snd (init_defaults env h s)) = calls s @ rx_loop @ tx_loop @ rest) \<and>
             (\<forall>c \<in> set (rx_loop @ tx_loop).
                call_name c \<noteq> ''radio_ctrl_impl::set_tx_bandwidth'' \<and> call_name c \<noteq> ''set_tx_bandwidth'') \<and>
             (\<forall>mtu_recv old_spp.
                tree s (segments ''mtu/recv'') = Some (value_node (VSize mtu_recv)) \<and>
                tree s (slash (spp_arg_path env) ''value'') = Some (value_node old_spp) \<longrightarrow>
                calls (snd (init_defaults env h s)) = calls s @ rx_loop @ tx_loop))"
proof -
  let ?rx = "concat (map rx_default_calls [0..<num_rx_chans env])"
  let ?tx = "concat (map tx_default_calls [0..<num_tx_chans env])"
  let ?s2 = "s\<lparr>stored_gain := gains_after TX_DIRECTION 0 (num_tx_chans env)
                               (gains_after RX_DIRECTION 0 (num_rx_chans env) (stored_gain s)),
              calls := calls s @ ?rx @ ?tx\<rparr>"
  from update_default_spp_calls [of env h ?s2] init_defaults_loops [OF run]
  have a: "\<exists>rest. calls (snd (init_defaults env h s)) = calls s @ ?rx @ ?tx @ rest"
    by simp
  have b: "\<forall>c \<in> set (?rx @ ?tx).
      call_name c \<noteq> ''radio_ctrl_impl::set_tx_bandwidth'' \<and> call_name c \<noteq> ''set_tx_bandwidth''"
    by (auto simp: rx_default_calls_def tx_default_calls_def)
  have c: "\<forall>mtu_recv old_spp.
      tree s (segments ''mtu/recv'') = Some (value_node (VSize mtu_recv)) \<and>
      tree s (slash (spp_arg_path env) ''value'') = Some (value_node old_spp) \<longrightarrow>
      calls (snd (init_defaults env h s)) = calls s @ ?rx @ ?tx"
    by (auto simp: init_defaults_success [OF _ _ run])
  from a b c have all:
    "(\<exists>rest. calls (snd (init_defaults env h s)) = calls s @ ?rx @ ?tx @ rest) \<and>
     (\<forall>c \<in> set (?rx @ ?tx).
        call_name c \<noteq> ''radio_ctrl_impl::set_tx_bandwidth'' \<and> call_name c \<noteq> ''set_tx_bandwidth'') \<and>
     (\<forall>mtu_recv old_spp.
        tree s (segments ''mtu/recv'') = Some (value_node (VSize mtu_recv)) \<and>
        tree s (slash (spp_arg_path env) ''value'') = Some (value_node old_spp) \<longrightarrow>
        calls (snd (init_defaults env h s)) = calls s @ ?rx @ ?tx)"
    by blast
  show ?thesis
    using all
    unfolding Let_def rx_default_calls_def [abs_def] tx_default_calls_def [abs_def] .
qed

theorem C2_tx_defaults_call_rx_bandwidth_witness:
  "fst (init_defaults example_env example_hw example_ctrl) = Inr () \<and>
   calls (snd (init_defaults example_env example_hw example_ctrl))
     = [Call ''radio_ctrl_impl::set_rx_frequency'' [VDouble RHODIUM_DEFAULT_FREQ, Index 0],
        Call ''radio_ctrl_impl::set_rx_gain'' [VDouble RHODIUM_DEFAULT_INVALID_GAIN, Index 0],
        Call ''radio_ctrl_impl::set_rx_antenna'' [VStr RHODIUM_DEFAULT_RX_ANTENNA, Index 0],
        Call ''radio_ctrl_impl::set_rx_bandwidth'' [VDouble RHODIUM_DEFAULT_BANDWIDTH, Index 0],
        Call ''radio_ctrl_impl::set_tx_frequency'' [VDouble RHODIUM_DEFAULT_FREQ, Index 0],
        Call ''radio_ctrl_impl::set_tx_gain'' [VDouble RHODIUM_DEFAULT_INVALID_GAIN, Index 0],
        Call ''radio_ctrl_impl::set_tx_antenna'' [VStr RHODIUM_DEFAULT_TX_ANTENNA, Index 0],
        Call ''radio_ctrl_impl::set_rx_bandwidth'' [VDouble RHODIUM_DEFAULT_BANDWIDTH, Index 0]]"
proof -
  note loops = C2_tx_defaults_call_rx_bandwidth [OF example_defaults_run, unfolded Let_def]
  from loops example_mtu_node example_spp_node
  have "calls (snd (init_defaults example_env example_hw example_ctrl))
     = calls example_ctrl
       @ concat (map (\<lambda>chan.
                 [Call ''radio_ctrl_impl::set_rx_frequency'' [VDouble RHODIUM_DEFAULT_FREQ, Index chan],
                  Call ''radio_ctrl_impl::set_rx_gain'' [VDouble RHODIUM_DEFAULT_INVALID_GAIN, Index chan],
                  Call ''radio_ctrl_impl::set_rx_antenna'' [VStr RHODIUM_DEFAULT_RX_ANTENNA, Index chan],
                  Call ''radio_ctrl_impl::set_rx_bandwidth'' [VDouble RHODIUM_DEFAULT_BANDWIDTH, Index chan]]) [0..<num_rx_chans example_env])
       @ concat (map (\<lambda>chan.
                 [Call ''radio_ctrl_impl::set_tx_frequency'' [VDouble RHODIUM_DEFAULT_FREQ, Index chan],
                  Call ''radio_ctrl_impl::set_tx_gain'' [VDouble RHODIUM_DEFAULT_INVALID_GAIN, Index chan],
                  Call ''radio_ctrl_impl::set_tx_antenna'' [VStr RHODIUM_DEFAULT_TX_ANTENNA, Index chan],
                  Call ''radio_ctrl_impl::set_rx_bandwidth'' [VDouble RHODIUM_DEFAULT_BANDWIDTH, Index chan]]) [0..<num_tx_chans example_env])"
    by blast
  then have "calls (snd (init_defaults example_env example_hw example_ctrl))
     = [Call ''radio_ctrl_impl::set_rx_frequency'' [VDouble RHODIUM_DEFAULT_FREQ, Index 0],
        Call ''radio_ctrl_impl::set_rx_gain'' [VDouble RHODIUM_DEFAULT_INVALID_GAIN, Index 0],
        Call ''radio_ctrl_impl::set_rx_antenna'' [VStr RHODIUM_DEFAULT_RX_ANTENNA, Index 0],
        Call ''radio_ctrl_impl::set_rx_bandwidth'' [VDouble RHODIUM_DEFAULT_BANDWIDTH, Index 0],
        Call ''radio_ctrl_impl::set_tx_frequency'' [VDouble RHODIUM_DEFAULT_FREQ, Index 0],
        Call ''radio_ctrl_impl::set_tx_gain'' [VDouble RHODIUM_DEFAULT_INVALID_GAIN, Index 0],
        Call ''radio_ctrl_impl::set_tx_antenna'' [VStr RHODIUM_DEFAULT_TX_ANTENNA, Index 0],
        Call ''radio_ctrl_impl::set_rx_bandwidth'' [VDouble RHODIUM_DEFAULT_BANDWIDTH, Index 0]]"
    by (simp add: example_env_def example_ctrl_def)
  with example_defaults_run show ?thesis by blast
qed

text \<open>
  C4. When \<open>_init_defaults\<close> returns (the \<open>mtu/recv\<close> node holds the \<open>size_t\<close> value
  \<open>mtu_recv\<close> and the \<open>spp\<close> node any plain value), the \<open>spp\<close> node holds the
  \<open>int\<close> conversion of \<open>default_spp\<close>, whatever it held before; and when the header
  bytes do not exceed \<open>mtu_recv\<close> and the quotient is below \<open>2^31\<close>, that \<open>int\<close> is
  \<open>(mtu_recv - max_if_hdr_words64 * 8) / (2 * 2)\<close> in exact integer arithmetic.
\<close>

theorem C4_default_spp:
  assumes mtu: "tree s (segments ''mtu/recv'') = Some (value_node (VSize mtu_recv))"
    and spp: "tree s (slash (spp_arg_path env) ''value'') = Some (value_node old_spp)"
    and run: "fst (init_defaults env h s) = Inr ()"
    and le: "8 * unat (max_if_hdr_words64 env) \<le> unat mtu_recv"
    and fits: "(unat mtu_recv - 8 * unat (max_if_hdr_words64 env)) div 4 < 2 ^ 31"
  shows "tree (snd (init_defaults env h s)) (slash (spp_arg_path env) ''value'')
           = Some (value_node (VInt (ucast (default_spp mtu_recv (max_if_hdr_words64 env))))) \<and>
         sint (ucast (default_spp mtu_recv (max_if_hdr_words64 env)) :: 32 word)
           = (int (unat mtu_recv) - int (unat (max_if_hdr_words64 env)) * 8) div (2 * 2)"
proof -
  have "tree (snd (init_defaults env h s)) (slash (spp_arg_path env) ''value'')
        = Some (value_node (VInt (ucast (default_spp mtu_recv (max_if_hdr_words64 env)))))"
    by (simp add: init_defaults_success [OF mtu spp run])
  moreover from spp_exact [OF le fits]
  have "sint (ucast (default_spp mtu_recv (max_if_hdr_words64 env)) :: 32 word)
        = (int (unat mtu_recv) - int (unat (max_if_hdr_words64 env)) * 8) div (2 * 2)"
    by (simp add: mult.commute)
  ultimately show ?thesis by simp
qed

theorem C4_default_spp_witness:
  "tree example_ctrl (segments ''mtu/recv'') = Some (value_node (VSize 8000)) \<and>
   tree example_ctrl (slash (spp_arg_path example_env) ''value'') = Some (value_node (VInt 364)) \<and>
   fst (init_defaults example_env example_hw example_ctrl) = Inr () \<and>
   8 * unat (max_if_hdr_words64 example_env) \<le> unat (8000 :: 64 word) \<and>
   (unat (8000 :: 64 word) - 8 * unat (max_if_hdr_words64 example_env)) div 4 < 2 ^ 31 \<and>
   tree (snd (init_defaults example_env example_hw example_ctrl)) (slash (spp_arg_path example_env) ''value'')
     = Some (value_node (VInt 1992)) \<and>
   sint (ucast (default_spp 8000 (max_if_hdr_words64 example_env)) :: 32 word) = (8000 - 4 * 8) div (2 * 2) \<and>
   ((8000 - 4 * 8) div (2 * 2) :: int) = 1992"
proof -
  have le: "8 * unat (max_if_hdr_words64 example_env) \<le> unat (8000 :: 64 word)"
    by (simp add: example_env_def)
  have fits: "(unat (8000 :: 64 word) - 8 * unat (max_if_hdr_words64 example_env)) div 4 < 2 ^ 31"
    by (simp add: example_env_def)
  have written: "(ucast (default_spp 8000 (max_if_hdr_words64 example_env)) :: 32 word) = 1992"
    by (simp add: example_env_def default_spp_def max_bytes_header_def)
  note spp = C4_default_spp [OF example_mtu_node example_spp_node example_defaults_run le fits]
  from spp have "tree (snd (init_defaults example_env example_hw example_ctrl))
      (slash (spp_arg_path example_env) ''value'') = Some (value_node (VInt 1992))"
    by (simp add: written)
  moreover from spp
  have "sint (ucast (default_spp 8000 (max_if_hdr_words64 example_env)) :: 32 word) = (8000 - 4 * 8) div (2 * 2)"
    by (simp add: example_env_def)
  moreover have "((8000 - 4 * 8) div (2 * 2) :: int) = 1992" by simp
  ultimately show ?thesis
    using example_mtu_node example_spp_node example_defaults_run le fits by blast
qed

text \<open>
  C4, as stated for every \<open>mtu/recv\<close> value, fails: with \<open>mtu/recv = 2^33 + 32\<close> and four
  header words, the exact quotient is \<open>2^31\<close>, and the value written to the \<open>int\<close>
  property is \<open>-2^31\<close>.
\<close>

theorem C4_counterexample:
  "fst (init_defaults example_env example_hw
          (example_ctrl\<lparr>tree := (tree example_ctrl)(segments ''mtu/recv'' \<mapsto> value_node (VSize 8589934624))\<rparr>))
     = Inr () \<and>
   (\<exists>w. tree (snd (init_defaults example_env example_hw
                 (example_ctrl\<lparr>tree := (tree example_ctrl)(segments ''mtu/recv'' \<mapsto> value_node (VSize 8589934624))\<rparr>)))
            (slash (spp_arg_path example_env) ''value'') = Some (value_node (VInt w))
        \<and> sint w = - 2147483648) \<and>
   ((8589934624 - 4 * 8) div (2 * 2) :: int) = 2147483648"
proof -
  let ?s = "example_ctrl\<lparr>tree := (tree example_ctrl)(segments ''mtu/recv'' \<mapsto> value_node (VSize 8589934624))\<rparr>"
  have run: "fst (init_defaults example_env example_hw ?s) = Inr ()"
    by (simp add: init_defaults_def for_chan.simps rx_defaults_def tx_defaults_def ext_def discard_def
      external_def example_hw_def example_env_def example_ctrl_def radio_ctrl_impl_set_gain_def
      update_default_spp_def property_get_def property_set_def store_def value_node_def
      get_sensors_request_def segments_def slash_def)
  have mtu: "tree ?s (segments ''mtu/recv'') = Some (value_node (VSize 8589934624))"
    by simp
  have spp: "tree ?s (slash (spp_arg_path example_env) ''value'') = Some (value_node (VInt 364))"
    by (simp add: example_ctrl_def example_env_def slash_def segments_def)
  have written: "(ucast (default_spp 8589934624 (max_if_hdr_words64 example_env)) :: 32 word) = 2147483648"
    by (simp add: example_env_def default_spp_def max_bytes_header_def)
  have "tree (snd (init_defaults example_env example_hw ?s)) (slash (spp_arg_path example_env) ''value'')
        = Some (value_node (VInt 2147483648))"
    by (simp add: init_defaults_success [OF mtu spp run] written)
  moreover have "sint (2147483648 :: 32 word) = - 2147483648" by simp
  ultimately have "\<exists>w. tree (snd (init_defaults example_env example_hw ?s))
            (slash (spp_arg_path example_env) ''value'') = Some (value_node (VInt w))
        \<and> sint w = - 2147483648"
    by blast
  moreover have "((8589934624 - 4 * 8) div (2 * 2) :: int) = 2147483648" by simp
  ultimately show ?thesis using run by blast
qed

section \<open>\<open>_init_peripherals\<close>: the order of the steps\<close>

lemma exec_observe:
  assumes "list_all (\<lambda>(a, f). \<forall>s s1. a s = (Inr (), s1) \<longrightarrow> obs s1 = f (obs s)) steps"
    and "exec (map fst steps) s = (Inr (), s')"
  shows "obs s' = fold snd steps (obs s)"
  using assms
proof (induction steps arbitrary: s)
  case Nil
  then show ?case by simp
next
  case (Cons step steps)
  obtain a f where step: "step = (a, f)" by (cases step)
  from Cons.prems(2) obtain s1 where a: "a s = (Inr (), s1)"
    and rest: "exec (map fst steps) s1 = (Inr (), s')"
    by (auto simp: step split: prod.splits sum.splits)
  from Cons.prems(1) a have "obs s1 = f (obs s)"
    by (simp add: step)
  moreover from Cons.prems(1) have "obs s' = fold snd steps (obs s1)"
    by (intro Cons.IH rest) simp
  ultimately show ?case by (simp add: step)
qed

lemma ext_observed:
  "\<forall>s s1. ext h name args s = (Inr (), s1) \<longrightarrow>
     (filter P (calls s1), stored_gain s1)
     = (filter P (calls s) @ filter P [Call name args], stored_gain s)"
  by (auto simp: ext_def discard_def external_def split: sum.splits)

lemma set_gain_observed:
  assumes "P (Call (set_gain_name d) [VDouble g, Index chan])"
    and "\<not> P (hardware_gain_write d (clip (gain_range env d) g) chan)"
  shows "\<forall>s s1. discard (set_gain env h d g chan) s = (Inr (), s1) \<longrightarrow>
     (filter P (calls s1), stored_gain s1)
     = (filter P (calls s) @ [Call (set_gain_name d) [VDouble g, Index chan]],
        (stored_gain s)((d, chan) \<mapsto> clip (gain_range env d) g))"
  using assms
  by (auto simp: discard_def set_gain_def external_def Let_def fun_upd_idem
      split: sum.splits if_splits)

lemma init_peripherals_success:
  assumes run: "fst (init_peripherals env h s) = Inr ()"
  shows "filter bringup_step (calls (snd (init_peripherals env h s)))
         = filter bringup_step (calls s) @
           [Call ''spi_core_3000::make''
              [Named ''_get_ctrl(0)'', Named ''regs::sr_addr(regs::SPI)'', Named ''regs::rb_addr(regs::RB_SPI)''],
            Call ''rhodium_cpld_ctrl''
              [Write_spi SEN_CPLD get_cpld_spi_config, Read_spi SEN_CPLD get_cpld_spi_config],
            Call ''set_tx_gain'' [VDouble RHODIUM_DEFAULT_GAIN, Index 0],
            Call ''set_tx_lo_gain'' [VDouble RHODIUM_DEFAULT_LO_GAIN, VStr (RHODIUM_LO1 env), Index 0],
            Call ''set_rx_gain'' [VDouble RHODIUM_DEFAULT_GAIN, Index 0],
            Call ''set_rx_lo_gain'' [VDouble RHODIUM_DEFAULT_LO_GAIN, VStr (RHODIUM_LO1 env), Index 0],
            Call ''lmx2592_iface::make''
              [Write_spi SEN_TX_LO get_tx_lo_spi_config, Read_spi SEN_TX_LO get_tx_lo_spi_config],
            Call ''lmx2592_iface::make''
              [Write_spi SEN_RX_LO get_rx_lo_spi_config, Read_spi SEN_RX_LO get_rx_lo_spi_config],
            Call ''usrp::gpio_atr::gpio_atr_3000::make''
              [Named ''_get_ctrl(0)'', Named ''regs::sr_addr(regs::GPIO)'', Named ''regs::rb_addr(regs::RB_DB_GPIO)''],
            Call ''rx_frontend_core_3000::make'' [Named ''_get_ctrl(0)'', Named ''regs::sr_addr'', VInt RX_FE_BASE],
            Call ''tx_frontend_core_200::make'' [Named ''_get_ctrl(0)'', Named ''regs::sr_addr'', VInt TX_FE_BASE]]"
    and "stored_gain (snd (init_peripherals env h s))
         = (stored_gain s)
             ((TX_DIRECTION, 0) \<mapsto> clip (gain_range env TX_DIRECTION) RHODIUM_DEFAULT_GAIN,
              (RX_DIRECTION, 0) \<mapsto> clip (gain_range env RX_DIRECTION) RHODIUM_DEFAULT_GAIN)"
proof -
  let ?P = bringup_step
  let ?obs = "\<lambda>s. (filter ?P (calls s), stored_gain s)"
  let ?E = "\<lambda>name args. (ext h name args,
              \<lambda>(log, gains :: direction_t \<times> nat \<Rightarrow> real option). (log @ filter ?P [Call name args], gains))"
  let ?G = "\<lambda>d. (discard (set_gain env h d RHODIUM_DEFAULT_GAIN 0),
              \<lambda>(log, gains). (log @ [Call (set_gain_name d) [VDouble RHODIUM_DEFAULT_GAIN, Index 0]],
                               gains((d, 0) \<mapsto> clip (gain_range env d) RHODIUM_DEFAULT_GAIN)))"
  define steps where "steps =
      [?E ''spi_core_3000::make''
         [Named ''_get_ctrl(0)'', Named ''regs::sr_addr(regs::SPI)'', Named ''regs::rb_addr(regs::RB_SPI)''],
       ?E ''rhodium_cpld_ctrl''
         [generate_write_spi SEN_CPLD get_cpld_spi_config,
          generate_read_spi SEN_CPLD get_cpld_spi_config],
       ?G TX_DIRECTION,
       ?E ''set_tx_lo_gain'' [VDouble RHODIUM_DEFAULT_LO_GAIN, VStr (RHODIUM_LO1 env), Index 0],
       ?G RX_DIRECTION,
       ?E ''set_rx_lo_gain'' [VDouble RHODIUM_DEFAULT_LO_GAIN, VStr (RHODIUM_LO1 env), Index 0],
       ?E ''lmx2592_iface::make''
         [generate_write_spi SEN_TX_LO get_tx_lo_spi_config,
          generate_read_spi SEN_TX_LO get_tx_lo_spi_config],
       ?E ''_tx_lo->set_reference_frequency'' [VDouble (RHODIUM_LO1_REF_FREQ env)],
       ?E ''_tx_lo->set_mash_order'' [Named ''lmx2592_iface::mash_order_t::THIRD''],
       ?E ''lmx2592_iface::make''
         [generate_write_spi SEN_RX_LO get_rx_lo_spi_config,
          generate_read_spi SEN_RX_LO get_rx_lo_spi_config],
       ?E ''_rx_lo->set_reference_frequency'' [VDouble (RHODIUM_LO1_REF_FREQ env)],
       ?E ''_rx_lo->set_mash_order'' [Named ''lmx2592_iface::mash_order_t::THIRD''],
       ?E ''usrp::gpio_atr::gpio_atr_3000::make''
         [Named ''_get_ctrl(0)'', Named ''regs::sr_addr(regs::GPIO)'', Named ''regs::rb_addr(regs::RB_DB_GPIO)''],
       ?E ''_gpio->set_atr_mode''
         [Named ''usrp::gpio_atr::MODE_GPIO'', Named ''usrp::gpio_atr::gpio_atr_3000::MASK_SET_ALL''],
       ?E ''_gpio->set_gpio_ddr''
         [Named ''usrp::gpio_atr::DDR_OUTPUT'', Named ''usrp::gpio_atr::gpio_atr_3000::MASK_SET_ALL''],
       ?E ''_gpio->set_gpio_out'' [VInt 1, VInt 3],
       ?E ''rx_frontend_core_3000::make'' [Named ''_get_ctrl(0)'', Named ''regs::sr_addr'', VInt RX_FE_BASE],
       ?E ''_rx_fe_core->set_adc_rate'' [VDouble (master_clock_rate env)],
       ?E ''_rx_fe_core->set_dc_offset'' [Named ''rx_frontend_core_3000::DEFAULT_DC_OFFSET_VALUE''],
       ?E ''_rx_fe_core->set_dc_offset_auto'' [Named ''rx_frontend_core_3000::DEFAULT_DC_OFFSET_ENABLE''],
       ?E ''_rx_fe_core->populate_subtree''
         [Path (slash_idx (slash (root_path env) ''rx_fe_corrections'') 0)],
       ?E ''tx_frontend_core_200::make'' [Named ''_get_ctrl(0)'', Named ''regs::sr_addr'', VInt TX_FE_BASE],
       ?E ''_tx_fe_core->set_dc_offset'' [Named ''tx_frontend_core_200::DEFAULT_DC_OFFSET_VALUE''],
       ?E ''_tx_fe_core->set_iq_balance'' [Named ''tx_frontend_core_200::DEFAULT_IQ_BALANCE_VALUE''],
       ?E ''_tx_fe_core->populate_subtree''
         [Path (slash_idx (slash (root_path env) ''tx_fe_corrections'') 0)]]"
  have same: "init_peripherals env h = exec (map fst steps)"
    by (simp add: init_peripherals_def steps_def)
  have gain: "?P (Call (set_gain_name d) [VDouble RHODIUM_DEFAULT_GAIN, Index 0])"
    "\<not> ?P (hardware_gain_write d (clip (gain_range env d) RHODIUM_DEFAULT_GAIN) 0)" for d
    by (simp_all add: bringup_step_def set_gain_name_def hardware_gain_write_def)
  have each: "list_all (\<lambda>(a, f). \<forall>s s1. a s = (Inr (), s1) \<longrightarrow> ?obs s1 = f (?obs s)) steps"
    unfolding steps_def
    by (simp only: list.pred_inject prod.case) (intro conjI ext_observed set_gain_observed gain TrueI)
  from run have "exec (map fst steps) s = (Inr (), snd (init_peripherals env h s))"
    by (simp add: same [symmetric] prod_eq_iff)
  with each have "?obs (snd (init_peripherals env h s)) = fold snd steps (?obs s)"
    by (rule exec_observe)
  then have both: "filter ?P (calls (snd (init_peripherals env h s)))
      = fst (fold snd steps (?obs s))"
    "stored_gain (snd (init_peripherals env h s)) = snd (fold snd steps (?obs s))"
    by (simp_all add: prod_eq_iff)
  show "filter bringup_step (calls (snd (init_peripherals env h s)))
         = filter bringup_step (calls s) @
           [Call ''spi_core_3000::make''
              [Named ''_get_ctrl(0)'', Named ''regs::sr_addr(regs::SPI)'', Named ''regs::rb_addr(regs::RB_SPI)''],
            Call ''rhodium_cpld_ctrl''
              [Write_spi SEN_CPLD get_cpld_spi_config, Read_spi SEN_CPLD get_cpld_spi_config],
            Call ''set_tx_gain'' [VDouble RHODIUM_DEFAULT_GAIN, Index 0],
            Call ''set_tx_lo_gain'' [VDouble RHODIUM_DEFAULT_LO_GAIN, VStr (RHODIUM_LO1 env), Index 0],
            Call ''set_rx_gain'' [VDouble RHODIUM_DEFAULT_GAIN, Index 0],
            Call ''set_rx_lo_gain'' [VDouble RHODIUM_DEFAULT_LO_GAIN, VStr (RHODIUM_LO1 env), Index 0],
            Call ''lmx2592_iface::make''
              [Write_spi SEN_TX_LO get_tx_lo_spi_config, Read_spi SEN_TX_LO get_tx_lo_spi_config],
            Call ''lmx2592_iface::make''
              [Write_spi SEN_RX_LO get_rx_lo_spi_config, Read_spi SEN_RX_LO get_rx_lo_spi_config],
            Call ''usrp::gpio_atr::gpio_atr_3000::make''
              [Named ''_get_ctrl(0)'', Named ''regs::sr_addr(regs::GPIO)'', Named ''regs::rb_addr(regs::RB_DB_GPIO)''],
            Call ''rx_frontend_core_3000::make'' [Named ''_get_ctrl(0)'', Named ''regs::sr_addr'', VInt RX_FE_BASE],
            Call ''tx_frontend_core_200::make'' [Named ''_get_ctrl(0)'', Named ''regs::sr_addr'', VInt TX_FE_BASE]]"
    by (simp add: both steps_def bringup_step_def set_gain_name_def generate_write_spi_def
        generate_read_spi_def)
  show "stored_gain (snd (init_peripherals env h s))
         = (stored_gain s)
             ((TX_DIRECTION, 0) \<mapsto> clip (gain_range env TX_DIRECTION) RHODIUM_DEFAULT_GAIN,
              (RX_DIRECTION, 0) \<mapsto> clip (gain_range env RX_DIRECTION) RHODIUM_DEFAULT_GAIN)"
    by (simp add: both steps_def)
qed

lemma example_peripherals_run:
  "fst (init_peripherals example_env example_hw s) = Inr ()"
  by (simp add: init_peripherals_def ext_def discard_def external_def set_gain_def Let_def
      example_hw_def get_sensors_request_def hardware_gain_write_def)

text \<open>
  C8. When \<open>_init_peripherals\<close> returns, the calls it made that instantiate a piece of
  hardware or write a gain are, in this order: the SPI core, the CPLD on chip select
  \<open>SEN_CPLD\<close>, the TX gain, the TX LO gain, the RX gain, the RX LO gain, the TX
  synthesizer on \<open>SEN_TX_LO\<close>, the RX synthesizer on \<open>SEN_RX_LO\<close>, the GPIO driver, the
  RX frontend core and the TX frontend core: the four gain writes come before both
  synthesizers are instantiated.
\<close>

theorem C8_peripherals_order:
  assumes run: "fst (init_peripherals env h s) = Inr ()"
  shows "filter bringup_step (calls (snd (init_peripherals env h s)))
         = filter bringup_step (calls s) @
     [Call ''spi_core_3000::make''
        [Named ''_get_ctrl(0)'', Named ''regs::sr_addr(regs::SPI)'', Named ''regs::rb_addr(regs::RB_SPI)''],
      Call ''rhodium_cpld_ctrl''
        [Write_spi SEN_CPLD get_cpld_spi_config, Read_spi SEN_CPLD get_cpld_spi_config],
      Call ''set_tx_gain'' [VDouble RHODIUM_DEFAULT_GAIN, Index 0],
      Call ''set_tx_lo_gain'' [VDouble RHODIUM_DEFAULT_LO_GAIN, VStr (RHODIUM_LO1 env), Index 0],
      Call ''set_rx_gain'' [VDouble RHODIUM_DEFAULT_GAIN, Index 0],
      Call ''set_rx_lo_gain'' [VDouble RHODIUM_DEFAULT_LO_GAIN, VStr (RHODIUM_LO1 env), Index 0],
      Call ''lmx2592_iface::make''
        [Write_spi SEN_TX_LO get_tx_lo_spi_config, Read_spi SEN_TX_LO get_tx_lo_spi_config],
      Call ''lmx2592_iface::make''
        [Write_spi SEN_RX_LO get_rx_lo_spi_config, Read_spi SEN_RX_LO get_rx_lo_spi_config],
      Call ''usrp::gpio_atr::gpio_atr_3000::make''
        [Named ''_get_ctrl(0)'', Named ''regs::sr_addr(regs::GPIO)'', Named ''regs::rb_addr(regs::RB_DB_GPIO)''],
      Call ''rx_frontend_core_3000::make'' [Named ''_get_ctrl(0)'', Named ''regs::sr_addr'', VInt RX_FE_BASE],
      Call ''tx_frontend_core_200::make'' [Named ''_get_ctrl(0)'', Named ''regs::sr_addr'', VInt TX_FE_BASE]]"
  using run by (rule init_peripherals_success(1))

theorem C8_peripherals_order_witness:
  "fst (init_peripherals example_env example_hw example_ctrl) = Inr () \<and>
   filter bringup_step (calls (snd (init_peripherals example_env example_hw example_ctrl)))
   = filter bringup_step (calls example_ctrl) @
     [Call ''spi_core_3000::make''
        [Named ''_get_ctrl(0)'', Named ''regs::sr_addr(regs::SPI)'', Named ''regs::rb_addr(regs::RB_SPI)''],
      Call ''rhodium_cpld_ctrl''
        [Write_spi SEN_CPLD get_cpld_spi_config, Read_spi SEN_CPLD get_cpld_spi_config],
      Call ''set_tx_gain'' [VDouble RHODIUM_DEFAULT_GAIN, Index 0],
      Call ''set_tx_lo_gain'' [VDouble RHODIUM_DEFAULT_LO_GAIN, VStr (RHODIUM_LO1 example_env), Index 0],
      Call ''set_rx_gain'' [VDouble RHODIUM_DEFAULT_GAIN, Index 0],
      Call ''set_rx_lo_gain'' [VDouble RHODIUM_DEFAULT_LO_GAIN, VStr (RHODIUM_LO1 example_env), Index 0],
      Call ''lmx2592_iface::make''
        [Write_spi SEN_TX_LO get_tx_lo_spi_config, Read_spi SEN_TX_LO get_tx_lo_spi_config],
      Call ''lmx2592_iface::make''
        [Write_spi SEN_RX_LO get_rx_lo_spi_config, Read_spi SEN_RX_LO get_rx_lo_spi_config],
      Call ''usrp::gpio_atr::gpio_atr_3000::make''
        [Named ''_get_ctrl(0)'', Named ''regs::sr_addr(regs::GPIO)'', Named ''regs::rb_addr(regs::RB_DB_GPIO)''],
      Call ''rx_frontend_core_3000::make'' [Named ''_get_ctrl(0)'', Named ''regs::sr_addr'', VInt RX_FE_BASE],
      Call ''tx_frontend_core_200::make'' [Named ''_get_ctrl(0)'', Named ''regs::sr_addr'', VInt TX_FE_BASE]]"
  using C8_peripherals_order [OF example_peripherals_run, of example_ctrl] example_peripherals_run
  by blast

text \<open>
  C8, as stated, fails: in the run of \<open>_init_peripherals\<close> on the example, the calls are,
  by name and in order, the ones below: the gain writes are the third to the eighth call,
  and the first synthesizer is instantiated by the ninth.
\<close>

theorem C8_counterexample:
  "fst (init_peripherals example_env example_hw example_ctrl) = Inr () \<and>
   map call_name (calls (snd (init_peripherals example_env example_hw example_ctrl)))
   = [''spi_core_3000::make'', ''rhodium_cpld_ctrl'',
      ''set_tx_gain'', ''hardware gain write'', ''set_tx_lo_gain'',
      ''set_rx_gain'', ''hardware gain write'', ''set_rx_lo_gain'',
      ''lmx2592_iface::make'', ''_tx_lo->set_reference_frequency'', ''_tx_lo->set_mash_order'',
      ''lmx2592_iface::make'', ''_rx_lo->set_reference_frequency'', ''_rx_lo->set_mash_order'',
      ''usrp::gpio_atr::gpio_atr_3000::make'', ''_gpio->set_atr_mode'', ''_gpio->set_gpio_ddr'',
      ''_gpio->set_gpio_out'',
      ''rx_frontend_core_3000::make'', ''_rx_fe_core->set_adc_rate'', ''_rx_fe_core->set_dc_offset'',
      ''_rx_fe_core->set_dc_offset_auto'', ''_rx_fe_core->populate_subtree'',
      ''tx_frontend_core_200::make'', ''_tx_fe_core->set_dc_offset'', ''_tx_fe_core->set_iq_balance'',
      ''_tx_fe_core->populate_subtree'']"
  by (simp add: init_peripherals_def ext_def discard_def external_def set_gain_def Let_def
      example_hw_def get_sensors_request_def example_ctrl_def hardware_gain_write_def
      set_gain_name_def)

section \<open>The gain sentinel\<close>

lemma init_prop_tree_frame:
  "fst (init_prop_tree env h s) = Inr () \<and>
   stored_gain (snd (init_prop_tree env h s)) = stored_gain s \<and>
   calls (snd (init_prop_tree env h s)) = calls s"
  by (simp add: init_prop_tree_def Let_def init_frontend_subtree_closed create_plain plain_def
      empty_node_def)

lemma bring_up_success:
  assumes d: "fst (init_defaults env h s) = Inr ()"
    and p: "fst (init_peripherals env h (snd (init_defaults env h s))) = Inr ()"
  shows "fst (bring_up env h s) = Inr () \<and>
         stored_gain (snd (bring_up env h s))
           = stored_gain (snd (init_peripherals env h (snd (init_defaults env h s)))) \<and>
         calls (snd (bring_up env h s))
           = calls (snd (init_peripherals env h (snd (init_defaults env h s))))"
proof -
  from d obtain D where d': "init_defaults env h s = (Inr (), D)"
    by (cases "init_defaults env h s") auto
  with p obtain P where p': "init_peripherals env h D = (Inr (), P)"
    by (cases "init_peripherals env h D") auto
  obtain T where t': "init_prop_tree env h P = (Inr (), T)"
    using init_prop_tree_frame [of env h P] by (cases "init_prop_tree env h P") auto
  have "bring_up env h s = (Inr (), T)"
    by (simp add: bring_up_def d' p' t')
  then show ?thesis
    using init_prop_tree_frame [of env h P] by (simp add: d' p' t')
qed

lemma clip_not_below: "x < fst rng \<Longrightarrow> clip rng g \<noteq> x"
  by (auto simp: clip_def max_def)

lemma set_gain_calls_observed:
  "\<forall>s s1. discard (set_gain env h d g chan) s = (Inr (), s1) \<longrightarrow>
     (filter P (calls s1), stored_gain s1)
     = (filter P (calls s)
          @ filter P (Call (set_gain_name d) [VDouble g, Index chan]
                      # (if stored_gain s (d, chan) = Some (clip (gain_range env d) g) then []
                         else [hardware_gain_write d (clip (gain_range env d) g) chan])),
        (stored_gain s)((d, chan) \<mapsto> clip (gain_range env d) g))"
  by (auto simp: discard_def set_gain_def external_def Let_def fun_upd_idem
      split: sum.splits if_splits)

lemma init_peripherals_gain_calls:
  assumes run: "fst (init_peripherals env h s) = Inr ()"
  shows "filter (gain_call d) (calls (snd (init_peripherals env h s)))
         = filter (gain_call d) (calls s)
           @ Call (set_gain_name d) [VDouble RHODIUM_DEFAULT_GAIN, Index 0]
           # (if stored_gain s (d, 0) = Some (clip (gain_range env d) RHODIUM_DEFAULT_GAIN) then []
              else [hardware_gain_write d (clip (gain_range env d) RHODIUM_DEFAULT_GAIN) 0])"
proof -
  let ?P = "gain_call d"
  let ?obs = "\<lambda>s. (filter ?P (calls s), stored_gain s)"
  let ?E = "\<lambda>name args. (ext h name args,
              \<lambda>(log, gains :: direction_t \<times> nat \<Rightarrow> real option). (log @ filter ?P [Call name args], gains))"
  let ?G = "\<lambda>d'. (discard (set_gain env h d' RHODIUM_DEFAULT_GAIN 0),
              \<lambda>(log, gains).
                (log @ filter ?P (Call (set_gain_name d') [VDouble RHODIUM_DEFAULT_GAIN, Index 0]
                        # (if gains (d', 0) = Some (clip (gain_range env d') RHODIUM_DEFAULT_GAIN) then []
                           else [hardware_gain_write d' (clip (gain_range env d') RHODIUM_DEFAULT_GAIN) 0])),
                 gains((d', 0) \<mapsto> clip (gain_range env d') RHODIUM_DEFAULT_GAIN)))"
  define steps where "steps =
      [?E ''spi_core_3000::make''
         [Named ''_get_ctrl(0)'', Named ''regs::sr_addr(regs::SPI)'', Named ''regs::rb_addr(regs::RB_SPI)''],
       ?E ''rhodium_cpld_ctrl''
         [generate_write_spi SEN_CPLD get_cpld_spi_config,
          generate_read_spi SEN_CPLD get_cpld_spi_config],
       ?G TX_DIRECTION,
       ?E ''set_tx_lo_gain'' [VDouble RHODIUM_DEFAULT_LO_GAIN, VStr (RHODIUM_LO1 env), Index 0],
       ?G RX_DIRECTION,
       ?E ''set_rx_lo_gain'' [VDouble RHODIUM_DEFAULT_LO_GAIN, VStr (RHODIUM_LO1 env), Index 0],
       ?E ''lmx2592_iface::make''
         [generate_write_spi SEN_TX_LO get_tx_lo_spi_config,
          generate_read_spi SEN_TX_LO get_tx_lo_spi_config],
       ?E ''_tx_lo->set_reference_frequency'' [VDouble (RHODIUM_LO1_REF_FREQ env)],
       ?E ''_tx_lo->set_mash_order'' [Named ''lmx2592_iface::mash_order_t::THIRD''],
       ?E ''lmx2592_iface::make''
         [generate_write_spi SEN_RX_LO get_rx_lo_spi_config,
          generate_read_spi SEN_RX_LO get_rx_lo_spi_config],
       ?E ''_rx_lo->set_reference_frequency'' [VDouble (RHODIUM_LO1_REF_FREQ env)],
       ?E ''_rx_lo->set_mash_order'' [Named ''lmx2592_iface::mash_order_t::THIRD''],
       ?E ''usrp::gpio_atr::gpio_atr_3000::make''
         [Named ''_get_ctrl(0)'', Named ''regs::sr_addr(regs::GPIO)'', Named ''regs::rb_addr(regs::RB_DB_GPIO)''],
       ?E ''_gpio->set_atr_mode''
         [Named ''usrp::gpio_atr::MODE_GPIO'', Named ''usrp::gpio_atr::gpio_atr_3000::MASK_SET_ALL''],
       ?E ''_gpio->set_gpio_ddr''
         [Named ''usrp::gpio_atr::DDR_OUTPUT'', Named ''usrp::gpio_atr::gpio_atr_3000::MASK_SET_ALL''],
       ?E ''_gpio->set_gpio_out'' [VInt 1, VInt 3],
       ?E ''rx_frontend_core_3000::make'' [Named ''_get_ctrl(0)'', Named ''regs::sr_addr'', VInt RX_FE_BASE],
       ?E ''_rx_fe_core->set_adc_rate'' [VDouble (master_clock_rate env)],
       ?E ''_rx_fe_core->set_dc_offset'' [Named ''rx_frontend_core_3000::DEFAULT_DC_OFFSET_VALUE''],
       ?E ''_rx_fe_core->set_dc_offset_auto'' [Named ''rx_frontend_core_3000::DEFAULT_DC_OFFSET_ENABLE''],
       ?E ''_rx_fe_core->populate_subtree''
         [Path (slash_idx (slash (root_path env) ''rx_fe_corrections'') 0)],
       ?E ''tx_frontend_core_200::make'' [Named ''_get_ctrl(0)'', Named ''regs::sr_addr'', VInt TX_FE_BASE],
       ?E ''_tx_fe_core->set_dc_offset'' [Named ''tx_frontend_core_200::DEFAULT_DC_OFFSET_VALUE''],
       ?E ''_tx_fe_core->set_iq_balance'' [Named ''tx_frontend_core_200::DEFAULT_IQ_BALANCE_VALUE''],
       ?E ''_tx_fe_core->populate_subtree''
         [Path (slash_idx (slash (root_path env) ''tx_fe_corrections'') 0)]]"
  have same: "init_peripherals env h = exec (map fst steps)"
    by (simp add: init_peripherals_def steps_def)
  have each: "list_all (\<lambda>(a, f). \<forall>s s1. a s = (Inr (), s1) \<longrightarrow> ?obs s1 = f (?obs s)) steps"
    unfolding steps_def
    by (simp only: list.pred_inject prod.case) (intro conjI ext_observed set_gain_calls_observed TrueI)
  from run have "exec (map fst steps) s = (Inr (), snd (init_peripherals env h s))"
    by (simp add: same [symmetric] prod_eq_iff)
  with each have "?obs (snd (init_peripherals env h s)) = fold snd steps (?obs s)"
    by (rule exec_observe)
  then have log: "filter ?P (calls (snd (init_peripherals env h s))) = fst (fold snd steps (?obs s))"
    by (simp add: prod_eq_iff)
  show ?thesis
    unfolding log
    by (cases d)
       (simp_all add: steps_def gain_call_def set_gain_name_def hardware_gain_write_def)
qed

lemma default_calls_no_gain_call:
  "filter (gain_call d) (concat (map rx_default_calls chans)) = []"
  "filter (gain_call d) (concat (map tx_default_calls chans)) = []"
  by (induction chans) (simp_all add: rx_default_calls_def tx_default_calls_def gain_call_def)

text \<open>
  C6. When \<open>_init_defaults\<close> returns (the \<open>mtu/recv\<close> and \<open>spp\<close> nodes hold plain
  values), the stored gain of every channel of either direction is
  \<open>RHODIUM_DEFAULT_INVALID_GAIN\<close>. When that value lies below the gain range of the
  direction, no gain request is clamped to it, and in any state where the stored gain of
  the channel is still that value a gain set of the channel takes the hardware path: the
  call of the setter is followed by the hardware gain write. When \<open>_init_peripherals\<close>
  then returns, bring-up returns, and in the whole of bring-up the only gain set of the
  direction is the initial gain write of \<open>_init_peripherals\<close> for channel 0, which takes
  the hardware path. After bring-up the stored gain of channel 0 is the clamped
  \<open>RHODIUM_DEFAULT_GAIN\<close>, not the sentinel, and a set of channel 0 to a gain with that
  clamped value is a no-op on the hardware; the stored gain of every other channel is
  still the sentinel, and a gain set of such a channel takes the hardware path.
\<close>

theorem C6_gain_sentinel_after_defaults:
  assumes mtu: "tree s (segments ''mtu/recv'') = Some (value_node (VSize mtu_recv))"
    and spp: "tree s (slash (spp_arg_path env) ''value'') = Some (value_node old_spp)"
    and run: "fst (init_defaults env h s) = Inr ()"
    and chan: "chan < (if d = RX_DIRECTION then num_rx_chans env else num_tx_chans env)"
    and invalid: "RHODIUM_DEFAULT_INVALID_GAIN < fst (gain_range env d)"
  shows "(let set_call = (\<lambda>g c. Call (if d = RX_DIRECTION then ''set_rx_gain'' else ''set_tx_gain'') [VDouble g, Index c]);
              hardware_call = (\<lambda>g c. Call ''hardware gain write''
                                  [Dir d, VDouble (clip (gain_range env d) g), Index c]);
              defaults = snd (init_defaults env h s);
              up = snd (bring_up env h s)
          in stored_gain defaults (d, chan) = Some RHODIUM_DEFAULT_INVALID_GAIN \<and>
             (\<forall>g. clip (gain_range env d) g \<noteq> RHODIUM_DEFAULT_INVALID_GAIN) \<and>
             (\<forall>t g. stored_gain t (d, chan) = Some RHODIUM_DEFAULT_INVALID_GAIN \<longrightarrow>
                calls (snd (set_gain env h d g chan t))
                = calls t @ [set_call g chan, hardware_call g chan]) \<and>
             (fst (init_peripherals env h defaults) = Inr () \<longrightarrow>
                fst (bring_up env h s) = Inr () \<and>
                stored_gain up (d, chan)
                  = Some (if chan = 0 then clip (gain_range env d) RHODIUM_DEFAULT_GAIN
                          else RHODIUM_DEFAULT_INVALID_GAIN) \<and>
                stored_gain up (d, 0) = Some (clip (gain_range env d) RHODIUM_DEFAULT_GAIN) \<and>
                stored_gain up (d, 0) \<noteq> Some RHODIUM_DEFAULT_INVALID_GAIN \<and>
                (chan = 0 \<longrightarrow>
                   filter (gain_call d) (calls up)
                   = filter (gain_call d) (calls s)
                     @ [set_call RHODIUM_DEFAULT_GAIN 0, hardware_call RHODIUM_DEFAULT_GAIN 0] \<and>
                   (\<forall>g. clip (gain_range env d) g = clip (gain_range env d) RHODIUM_DEFAULT_GAIN \<longrightarrow>
                      calls (snd (set_gain env h d g 0 up)) = calls up @ [set_call g 0])) \<and>
                (chan \<noteq> 0 \<longrightarrow>
                   (\<forall>g. calls (snd (set_gain env h d g chan up))
                        = calls up @ [set_call g chan, hardware_call g chan]))))"
proof -
  let ?D = "snd (init_defaults env h s)"
  let ?B = "snd (bring_up env h s)"
  let ?set = "\<lambda>g c. Call (if d = RX_DIRECTION then ''set_rx_gain'' else ''set_tx_gain'') [VDouble g, Index c]"
  let ?hw = "\<lambda>g c. Call ''hardware gain write'' [Dir d, VDouble (clip (gain_range env d) g), Index c]"
  note defaults = init_defaults_success [OF mtu spp run]
  have stored: "stored_gain ?D (d, chan) = Some RHODIUM_DEFAULT_INVALID_GAIN"
    using chan by (cases d) (simp_all add: defaults gains_after_def)
  have never: "clip (gain_range env d) g \<noteq> RHODIUM_DEFAULT_INVALID_GAIN" for g
    using invalid by (rule clip_not_below)
  have hard: "calls (snd (set_gain env h d g chan t)) = calls t @ [?set g chan, ?hw g chan]"
    if "stored_gain t (d, chan) = Some RHODIUM_DEFAULT_INVALID_GAIN" for t g
    using that never [of g]
    by (auto simp: set_gain_def Let_def external_def set_gain_name_def hardware_gain_write_def
        split: sum.splits)
  have after: "fst (bring_up env h s) = Inr () \<and>
      stored_gain ?B (d, chan)
        = Some (if chan = 0 then clip (gain_range env d) RHODIUM_DEFAULT_GAIN
                else RHODIUM_DEFAULT_INVALID_GAIN) \<and>
      stored_gain ?B (d, 0) = Some (clip (gain_range env d) RHODIUM_DEFAULT_GAIN) \<and>
      stored_gain ?B (d, 0) \<noteq> Some RHODIUM_DEFAULT_INVALID_GAIN \<and>
      (chan = 0 \<longrightarrow>
         filter (gain_call d) (calls ?B)
         = filter (gain_call d) (calls s) @ [?set RHODIUM_DEFAULT_GAIN 0, ?hw RHODIUM_DEFAULT_GAIN 0] \<and>
         (\<forall>g. clip (gain_range env d) g = clip (gain_range env d) RHODIUM_DEFAULT_GAIN \<longrightarrow>
            calls (snd (set_gain env h d g 0 ?B)) = calls ?B @ [?set g 0])) \<and>
      (chan \<noteq> 0 \<longrightarrow>
         (\<forall>g. calls (snd (set_gain env h d g chan ?B)) = calls ?B @ [?set g chan, ?hw g chan]))"
    if peripherals: "fst (init_peripherals env h ?D) = Inr ()"
  proof -
    note up = bring_up_success [OF run peripherals]
    have gains: "stored_gain ?B
        = (stored_gain ?D)
            ((TX_DIRECTION, 0) \<mapsto> clip (gain_range env TX_DIRECTION) RHODIUM_DEFAULT_GAIN,
             (RX_DIRECTION, 0) \<mapsto> clip (gain_range env RX_DIRECTION) RHODIUM_DEFAULT_GAIN)"
      using up init_peripherals_success(2) [OF peripherals] by simp
    have zero: "stored_gain ?B (d, 0) = Some (clip (gain_range env d) RHODIUM_DEFAULT_GAIN)"
      by (cases d) (simp_all add: gains)
    have other: "stored_gain ?B (d, chan) = Some RHODIUM_DEFAULT_INVALID_GAIN" if "chan \<noteq> 0"
      using that stored by (simp add: gains)
    have here: "stored_gain ?B (d, chan)
        = Some (if chan = 0 then clip (gain_range env d) RHODIUM_DEFAULT_GAIN
                else RHODIUM_DEFAULT_INVALID_GAIN)"
      using zero other by (cases "chan = 0") simp_all
    have differs: "stored_gain ?B (d, 0) \<noteq> Some RHODIUM_DEFAULT_INVALID_GAIN"
      using never [of RHODIUM_DEFAULT_GAIN] by (simp add: zero)
    have log: "filter (gain_call d) (calls ?B)
        = filter (gain_call d) (calls s) @ [?set RHODIUM_DEFAULT_GAIN 0, ?hw RHODIUM_DEFAULT_GAIN 0]"
      if "chan = 0"
    proof -
      have "stored_gain ?D (d, 0) \<noteq> Some (clip (gain_range env d) RHODIUM_DEFAULT_GAIN)"
        using stored that never [of RHODIUM_DEFAULT_GAIN] by simp
      moreover have "filter (gain_call d) (calls ?D) = filter (gain_call d) (calls s)"
        by (simp add: defaults default_calls_no_gain_call)
      moreover have "calls ?B = calls (snd (init_peripherals env h ?D))"
        using up by simp
      ultimately show ?thesis
        using init_peripherals_gain_calls [OF peripherals, of d]
        by (simp add: set_gain_name_def hardware_gain_write_def)
    qed
    have short: "calls (snd (set_gain env h d g 0 ?B)) = calls ?B @ [?set g 0]"
      if "clip (gain_range env d) g = clip (gain_range env d) RHODIUM_DEFAULT_GAIN" for g
      using that zero by (simp add: set_gain_def Let_def set_gain_name_def)
    have still: "calls (snd (set_gain env h d g chan ?B)) = calls ?B @ [?set g chan, ?hw g chan]"
      if "chan \<noteq> 0" for g
      using other [OF that] by (rule hard)
    from up here zero differs log short still show ?thesis by blast
  qed
  from stored never hard after show ?thesis
    unfolding Let_def by blast
qed

theorem C6_gain_sentinel_after_defaults_witness:
  "tree example_ctrl (segments ''mtu/recv'') = Some (value_node (VSize 8000)) \<and>
   tree example_ctrl (slash (spp_arg_path example_env) ''value'') = Some (value_node (VInt 364)) \<and>
   fst (init_defaults example_env example_hw example_ctrl) = Inr () \<and>
   0 < (if TX_DIRECTION = RX_DIRECTION then num_rx_chans example_env else num_tx_chans example_env) \<and>
   RHODIUM_DEFAULT_INVALID_GAIN < fst (gain_range example_env TX_DIRECTION) \<and>
   fst (init_peripherals example_env example_hw
          (snd (init_defaults example_env example_hw example_ctrl))) = Inr () \<and>
   stored_gain (snd (init_defaults example_env example_hw example_ctrl)) (TX_DIRECTION, 0)
     = Some RHODIUM_DEFAULT_INVALID_GAIN \<and>
   calls (snd (set_gain example_env example_hw TX_DIRECTION 0 0
                 (snd (init_defaults example_env example_hw example_ctrl))))
     = calls (snd (init_defaults example_env example_hw example_ctrl))
       @ [Call ''set_tx_gain'' [VDouble 0, Index 0],
          Call ''hardware gain write'' [Dir TX_DIRECTION, VDouble 0, Index 0]] \<and>
   fst (bring_up example_env example_hw example_ctrl) = Inr () \<and>
   stored_gain (snd (bring_up example_env example_hw example_ctrl)) (TX_DIRECTION, 0) = Some 0 \<and>
   filter (gain_call TX_DIRECTION) (calls (snd (bring_up example_env example_hw example_ctrl)))
     = [Call ''set_tx_gain'' [VDouble 0, Index 0],
        Call ''hardware gain write'' [Dir TX_DIRECTION, VDouble 0, Index 0]]"
proof -
  let ?D = "snd (init_defaults example_env example_hw example_ctrl)"
  let ?B = "snd (bring_up example_env example_hw example_ctrl)"
  have chan: "0 < (if TX_DIRECTION = RX_DIRECTION then num_rx_chans example_env else num_tx_chans example_env)"
    by (simp add: example_env_def)
  have invalid: "RHODIUM_DEFAULT_INVALID_GAIN < fst (gain_range example_env TX_DIRECTION)"
    by (simp add: example_env_def RHODIUM_DEFAULT_INVALID_GAIN_def)
  have peripherals: "fst (init_peripherals example_env example_hw ?D) = Inr ()"
    by (rule example_peripherals_run)
  have zero: "clip (gain_range example_env TX_DIRECTION) 0 = 0"
    "clip (gain_range example_env TX_DIRECTION) RHODIUM_DEFAULT_GAIN = 0"
    "RHODIUM_DEFAULT_GAIN = 0"
    by (simp_all add: clip_def example_env_def RHODIUM_DEFAULT_GAIN_def)
  note sentinel = C6_gain_sentinel_after_defaults
    [OF example_mtu_node example_spp_node example_defaults_run chan invalid, unfolded Let_def]
  from sentinel have a: "stored_gain ?D (TX_DIRECTION, 0) = Some RHODIUM_DEFAULT_INVALID_GAIN"
    by blast
  with sentinel have "calls (snd (set_gain example_env example_hw TX_DIRECTION 0 0 ?D))
     = calls ?D
       @ [Call (if TX_DIRECTION = RX_DIRECTION then ''set_rx_gain'' else ''set_tx_gain'')
            [VDouble 0, Index 0],
          Call ''hardware gain write''
            [Dir TX_DIRECTION, VDouble (clip (gain_range example_env TX_DIRECTION) 0), Index 0]]"
    by blast
  then have b: "calls (snd (set_gain example_env example_hw TX_DIRECTION 0 0 ?D))
     = calls ?D
       @ [Call ''set_tx_gain'' [VDouble 0, Index 0],
          Call ''hardware gain write'' [Dir TX_DIRECTION, VDouble 0, Index 0]]"
    by (simp add: zero)
  from sentinel peripherals have c: "fst (bring_up example_env example_hw example_ctrl) = Inr ()"
    by blast
  from sentinel peripherals
  have "stored_gain ?B (TX_DIRECTION, 0)
      = Some (clip (gain_range example_env TX_DIRECTION) RHODIUM_DEFAULT_GAIN)"
    by blast
  then have d: "stored_gain ?B (TX_DIRECTION, 0) = Some 0"
    by (simp add: zero)
  from sentinel peripherals
  have "filter (gain_call TX_DIRECTION) (calls ?B)
      = filter (gain_call TX_DIRECTION) (calls example_ctrl)
        @ [Call (if TX_DIRECTION = RX_DIRECTION then ''set_rx_gain'' else ''set_tx_gain'')
             [VDouble RHODIUM_DEFAULT_GAIN, Index 0],
           Call ''hardware gain write''
             [Dir TX_DIRECTION,
              VDouble (clip (gain_range example_env TX_DIRECTION) RHODIUM_DEFAULT_GAIN), Index 0]]"
    by blast
  then have e: "filter (gain_call TX_DIRECTION) (calls ?B)
      = [Call ''set_tx_gain'' [VDouble 0, Index 0],
         Call ''hardware gain write'' [Dir TX_DIRECTION, VDouble 0, Index 0]]"
    by (simp add: zero example_ctrl_def)
  from example_mtu_node example_spp_node example_defaults_run chan invalid peripherals a b c d e
  show ?thesis
    by blast
qed

text \<open>
  C6, as stated for the state after bring-up, fails: after bring-up on the example (one RX
  and one TX channel, gains from 0 to 60) the stored gain of channel 0 is 0 in both
  directions, not the sentinel \<open>-1\<close>, and a set of the TX gain of channel 0 to 0 is then
  short-circuited: the only call is the setter, with no hardware gain write.
\<close>

theorem C6_counterexample:
  "fst (bring_up example_env example_hw example_ctrl) = Inr () \<and>
   stored_gain (snd (bring_up example_env example_hw example_ctrl)) (TX_DIRECTION, 0) = Some 0 \<and>
   stored_gain (snd (bring_up example_env example_hw example_ctrl)) (RX_DIRECTION, 0) = Some 0 \<and>
   RHODIUM_DEFAULT_INVALID_GAIN = - 1 \<and>
   calls (snd (set_gain example_env example_hw TX_DIRECTION 0 0
                 (snd (bring_up example_env example_hw example_ctrl))))
     = calls (snd (bring_up example_env example_hw example_ctrl))
       @ [Call ''set_tx_gain'' [VDouble 0, Index 0]]"
proof -
  let ?B = "snd (bring_up example_env example_hw example_ctrl)"
  let ?D = "snd (init_defaults example_env example_hw example_ctrl)"
  note up = bring_up_success [OF example_defaults_run example_peripherals_run]
  have gains: "stored_gain ?B
      = (stored_gain ?D)
          ((TX_DIRECTION, 0) \<mapsto> clip (gain_range example_env TX_DIRECTION) RHODIUM_DEFAULT_GAIN,
           (RX_DIRECTION, 0) \<mapsto> clip (gain_range example_env RX_DIRECTION) RHODIUM_DEFAULT_GAIN)"
    using up init_peripherals_success(2) [OF example_peripherals_run, of ?D] by simp
  have zero: "clip (gain_range example_env d) RHODIUM_DEFAULT_GAIN = 0" for d
    by (simp add: clip_def example_env_def RHODIUM_DEFAULT_GAIN_def)
  have tx: "stored_gain ?B (TX_DIRECTION, 0) = Some 0"
    and rx: "stored_gain ?B (RX_DIRECTION, 0) = Some 0"
    by (simp_all add: gains zero)
  have "clip (gain_range example_env TX_DIRECTION) 0 = 0"
    by (simp add: clip_def example_env_def)
  with tx have short: "calls (snd (set_gain example_env example_hw TX_DIRECTION 0 0 ?B))
      = calls ?B @ [Call ''set_tx_gain'' [VDouble 0, Index 0]]"
    by (simp add: set_gain_def Let_def set_gain_name_def)
  from up tx rx short show ?thesis
    by (simp add: RHODIUM_DEFAULT_INVALID_GAIN_def)
qed

end
